theory Spec2Isabelle
  imports Complex_Main
begin

section \<open>JavaScript values and effects\<close>

text \<open>
  A JavaScript string is modelled as a HOL \<open>string\<close>, one list element per code unit,
  so that \<open>slice(0, n)\<close> is \<open>take n\<close>. A JavaScript number that reaches the core
  through JSON is finite and is modelled as a \<open>real\<close>. An optional field
  \<open>f?: T\<close> is a \<open>T option\<close>, with \<open>None\<close> for \<open>undefined\<close>.
\<close>

text \<open>A thrown value: an \<open>Error\<close> object with its message, or any other value with
  its rendering by \<open>String(err)\<close>.\<close>

datatype js_exn = JsError string | JsThrown string

text \<open>\<open>err instanceof Error ? err.message : String(err)\<close>\<close>

fun error_text :: "js_exn \<Rightarrow> string" where
  "error_text (JsError m) = m"
| "error_text (JsThrown s) = s"

text \<open>Truthiness of optional strings, booleans and numbers (\<open>!x\<close>, \<open>x && y\<close>).\<close>

fun truthy_str :: "string option \<Rightarrow> bool" where
  "truthy_str None = False"
| "truthy_str (Some s) = (s \<noteq> [])"

fun truthy_bool :: "bool option \<Rightarrow> bool" where
  "truthy_bool None = False"
| "truthy_bool (Some b) = b"

fun truthy_num :: "real option \<Rightarrow> bool" where
  "truthy_num None = False"
| "truthy_num (Some x) = (x \<noteq> 0)"

subsection \<open>Messages, results and the record of calls\<close>

text \<open>\<open>OutboundMessage\<close> and \<open>SendResult\<close>: the channel contract.\<close>

record outbound_message =
  chatId :: string
  content :: string
  replyToId :: "string option"
  mediaUrls :: "string list option"

record send_result =
  sr_success :: bool
  sr_messageId :: "string option"
  sr_error :: "string option"

text \<open>\<open>DeliveryTarget\<close>, \<open>DeliveryPayload\<close>, \<open>DeliveryResult\<close> of the outbound service.\<close>

record delivery_target =
  dt_channel :: string
  dt_to :: string
  dt_accountId :: "string option"

record delivery_payload =
  dp_text :: string
  dp_mediaUrls :: "string list option"
  dp_replyToId :: "string option"

record delivery_result =
  dr_success :: bool
  dr_channel :: string
  dr_messageId :: "string option"
  dr_error :: "string option"
  dr_errorDetails :: "js_exn option"

text \<open>The parameters and the result of the model-turn callback \<open>AgentExecutor\<close>.\<close>

record agent_params =
  ap_message :: string
  ap_sessionKey :: "string option"
  ap_model :: "string option"
  ap_timeoutSeconds :: "real option"

record agent_result =
  ar_success :: bool
  ar_output :: string
  ar_error :: "string option"

text \<open>
  The calls made during a run are recorded in order, so that "is invoked", "is not
  invoked" and "is invoked before" are statements about this record. Logger calls are
  not modelled: they return nothing and change nothing the core reads.
\<close>

datatype event =
    AgentExecutorCalled agent_params
  | DeliverOutboundPayloadsCalled string string "delivery_payload list" "bool option"
  | DeliverMessageCalled delivery_target delivery_payload bool
  | SendMessageCalled string outbound_message

text \<open>
  The world a computation runs in: the state \<open>ext\<close> of the external collaborators
  (channel adapters, the model provider, the abort controller), of any type, and the
  calls recorded so far.
\<close>

record 'e world =
  ext :: 'e
  trace :: "event list"

text \<open>A computation over a state either returns a value or throws; both leave a
  state behind. Deliveries and executions run over a world, the tools over the state of
  the scheduler service.\<close>

type_synonym ('s, 'a) js = "'s \<Rightarrow> (js_exn + 'a) \<times> 's"

definition returns :: "'a \<Rightarrow> ('s, 'a) js" where
  "returns x w = (Inr x, w)"

definition throws :: "js_exn \<Rightarrow> ('s, 'a) js" where
  "throws err w = (Inl err, w)"

definition bind_js :: "('s, 'a) js \<Rightarrow> ('a \<Rightarrow> ('s, 'b) js) \<Rightarrow> ('s, 'b) js" where
  "bind_js m f w = (case m w of (Inl err, w') \<Rightarrow> (Inl err, w') | (Inr x, w') \<Rightarrow> f x w')"

text \<open>\<open>try { m } catch (err) { h err }\<close>\<close>

definition try_catch :: "('s, 'a) js \<Rightarrow> (js_exn \<Rightarrow> ('s, 'a) js) \<Rightarrow> ('s, 'a) js" where
  "try_catch m h w = (case m w of (Inl err, w') \<Rightarrow> h err w' | (Inr x, w') \<Rightarrow> (Inr x, w'))"

definition record_call :: "event \<Rightarrow> ('e world, unit) js" where
  "record_call ev w = (Inr (), w\<lparr>trace := trace w @ [ev]\<rparr>)"

section \<open>Channel registry (interface)\<close>

text \<open>
  A channel is its \<open>sendMessage\<close> method: it reads and changes the external state and
  returns a \<open>SendResult\<close> or throws. The registry function \<open>getChannel\<close> of
  \<open>channels/common\<close> is a parameter of the model: a lookup by channel id in the current
  external state, \<open>None\<close> for \<open>undefined\<close>.
\<close>

type_synonym 'e channel = "outbound_message \<Rightarrow> 'e \<Rightarrow> (js_exn + send_result) \<times> 'e"

type_synonym 'e registry = "'e \<Rightarrow> string \<Rightarrow> 'e channel option"

text \<open>\<open>await channel.sendMessage(message)\<close>, recorded.\<close>

definition call_sendMessage :: "string \<Rightarrow> 'e channel \<Rightarrow> outbound_message \<Rightarrow> ('e world, send_result) js" where
  "call_sendMessage channelId channel message w =
     (case channel message (ext w) of
        (r, e') \<Rightarrow> (r, \<lparr>ext = e', trace = trace w @ [SendMessageCalled channelId message]\<rparr>))"

section \<open>Outbound delivery service\<close>

text \<open>\<open>DeliveryOptions\<close>; the abort signal is an object whose \<open>aborted\<close> flag is read
  from the external state at the moment of the check.\<close>

record 'e delivery_options =
  do_bestEffort :: "bool option"
  do_timeoutMs :: "real option"
  do_abortSignal :: "('e \<Rightarrow> bool) option"

text \<open>\<open>const { bestEffort = false } = options ?? {}\<close>\<close>

definition bestEffort_or_false :: "'e delivery_options option \<Rightarrow> bool" where
  "bestEffort_or_false options =
     (case options of None \<Rightarrow> False
      | Some opts \<Rightarrow> (case do_bestEffort opts of None \<Rightarrow> False | Some b \<Rightarrow> b))"

text \<open>\<open>options?.bestEffort\<close> as a condition\<close>

definition options_bestEffort :: "'e delivery_options option \<Rightarrow> bool" where
  "options_bestEffort options =
     (case options of None \<Rightarrow> False | Some opts \<Rightarrow> truthy_bool (do_bestEffort opts))"

text \<open>\<open>options?.abortSignal?.aborted\<close> as a condition\<close>

definition signal_aborted :: "'e delivery_options option \<Rightarrow> 'e \<Rightarrow> bool" where
  "signal_aborted options e =
     (case options of None \<Rightarrow> False
      | Some opts \<Rightarrow> (case do_abortSignal opts of None \<Rightarrow> False | Some sig \<Rightarrow> sig e))"

text \<open>\<open>{ ...options, bestEffort: true }\<close>\<close>

definition with_bestEffort :: "'e delivery_options option \<Rightarrow> 'e delivery_options" where
  "with_bestEffort options =
     (case options of
        None \<Rightarrow> \<lparr>do_bestEffort = Some True, do_timeoutMs = None, do_abortSignal = None\<rparr>
      | Some opts \<Rightarrow> opts\<lparr>do_bestEffort := Some True\<rparr>)"

text \<open>\<open>deliverMessage(target, payload, options)\<close>: one payload to one channel.\<close>

definition deliverMessage ::
  "'e registry \<Rightarrow> delivery_target \<Rightarrow> delivery_payload \<Rightarrow> 'e delivery_options option
     \<Rightarrow> ('e world, delivery_result) js" where
  "deliverMessage getChannel target payload options =
     (let channelId = dt_channel target; to = dt_to target;
          bestEffort = bestEffort_or_false options
      in bind_js (record_call (DeliverMessageCalled target payload bestEffort)) (\<lambda>_.
         try_catch
           (\<lambda>w. case getChannel (ext w) channelId of
                  None \<Rightarrow>
                    (let error = ''Channel not found: '' @ channelId
                     in if \<not> bestEffort then throws (JsError error) w
                        else returns \<lparr>dr_success = False, dr_channel = channelId,
                               dr_messageId = None, dr_error = Some error,
                               dr_errorDetails = None\<rparr> w)
                | Some channel \<Rightarrow>
                    bind_js
                      (call_sendMessage channelId channel
                         \<lparr>chatId = to, content = dp_text payload,
                          replyToId = dp_replyToId payload, mediaUrls = dp_mediaUrls payload\<rparr>)
                      (\<lambda>result.
                         if sr_success result
                         then returns \<lparr>dr_success = True, dr_channel = channelId,
                                dr_messageId = sr_messageId result, dr_error = None,
                                dr_errorDetails = None\<rparr>
                         else if \<not> bestEffort
                         then throws (JsError (case sr_error result of
                                                 None \<Rightarrow> ''Unknown error'' | Some e \<Rightarrow> e))
                         else returns \<lparr>dr_success = False, dr_channel = channelId,
                                dr_messageId = None, dr_error = sr_error result,
                                dr_errorDetails = None\<rparr>) w)
           (\<lambda>err. if \<not> bestEffort then throws err
                  else returns \<lparr>dr_success = False, dr_channel = channelId,
                         dr_messageId = None, dr_error = Some (error_text err),
                         dr_errorDetails = Some err\<rparr>)))"

text \<open>
  \<open>deliverMessages(target, payloads, options)\<close>. One pass of the \<open>for\<close> loop either
  leaves the loop (\<open>break\<close>) or goes on to the next payload, in both cases with the
  results recorded so far.
\<close>

datatype 'a loop_ctl = Continue 'a | Break 'a

text \<open>The synthetic result pushed when the abort signal has fired.\<close>

definition abortedResult :: "delivery_target \<Rightarrow> delivery_result" where
  "abortedResult target =
     \<lparr>dr_success = False, dr_channel = dt_channel target, dr_messageId = None,
      dr_error = Some ''Aborted'', dr_errorDetails = None\<rparr>"

definition deliverMessages_iteration ::
  "'e registry \<Rightarrow> delivery_target \<Rightarrow> 'e delivery_options option \<Rightarrow> delivery_payload
     \<Rightarrow> delivery_result list \<Rightarrow> ('e world, delivery_result list loop_ctl) js" where
  "deliverMessages_iteration getChannel target options payload results =
     (\<lambda>w. if signal_aborted options (ext w)
          then returns (Break (results @ [abortedResult target])) w
          else try_catch
                 (bind_js (deliverMessage getChannel target payload (Some (with_bestEffort options)))
                    (\<lambda>result.
                       if \<not> dr_success result \<and> \<not> options_bestEffort options
                       then returns (Break (results @ [result]))
                       else returns (Continue (results @ [result]))))
                 (\<lambda>err.
                    let results' = results @
                          [\<lparr>dr_success = False, dr_channel = dt_channel target,
                            dr_messageId = None, dr_error = Some (error_text err),
                            dr_errorDetails = Some err\<rparr>]
                    in if \<not> options_bestEffort options then returns (Break results')
                       else returns (Continue results')) w)"

fun deliverMessages_loop ::
  "'e registry \<Rightarrow> delivery_target \<Rightarrow> 'e delivery_options option \<Rightarrow> delivery_payload list
     \<Rightarrow> delivery_result list \<Rightarrow> ('e world, delivery_result list) js" where
  "deliverMessages_loop getChannel target options [] results w = (Inr results, w)"
| "deliverMessages_loop getChannel target options (payload # rest) results w =
     (case deliverMessages_iteration getChannel target options payload results w of
        (Inl err, w') \<Rightarrow> (Inl err, w')
      | (Inr (Break results'), w') \<Rightarrow> (Inr results', w')
      | (Inr (Continue results'), w') \<Rightarrow>
          deliverMessages_loop getChannel target options rest results' w')"

definition deliverMessages ::
  "'e registry \<Rightarrow> delivery_target \<Rightarrow> delivery_payload list \<Rightarrow> 'e delivery_options option
     \<Rightarrow> ('e world, delivery_result list) js" where
  "deliverMessages getChannel target payloads options =
     deliverMessages_loop getChannel target options payloads []"

text \<open>\<open>deliverOutboundPayloads(params)\<close>: the main entry.\<close>

record 'e outbound_params =
  op_channel :: string
  op_to :: string
  op_accountId :: "string option"
  op_payloads :: "delivery_payload list"
  op_bestEffort :: "bool option"
  op_abortSignal :: "('e \<Rightarrow> bool) option"

definition deliverOutboundPayloads ::
  "'e registry \<Rightarrow> 'e outbound_params \<Rightarrow> ('e world, delivery_result list) js" where
  "deliverOutboundPayloads getChannel params =
     (let channel = op_channel params; to = op_to params; payloads = op_payloads params;
          bestEffort = (case op_bestEffort params of None \<Rightarrow> False | Some b \<Rightarrow> b);
          abortSignal = op_abortSignal params
      in bind_js (record_call (DeliverOutboundPayloadsCalled channel to payloads
                                 (op_bestEffort params))) (\<lambda>_.
         if payloads = [] then returns []
         else let target = \<lparr>dt_channel = channel, dt_to = to,
                             dt_accountId = op_accountId params\<rparr>
              in deliverMessages getChannel target payloads
                   (Some \<lparr>do_bestEffort = Some bestEffort, do_timeoutMs = None,
                          do_abortSignal = abortSignal\<rparr>)))"

text \<open>\<open>isChannelAvailable(channelId)\<close>\<close>

definition isChannelAvailable :: "'e registry \<Rightarrow> string \<Rightarrow> 'e \<Rightarrow> bool" where
  "isChannelAvailable getChannel channelId e = (getChannel e channelId \<noteq> None)"

section \<open>Cron jobs\<close>

text \<open>
  Modelled from the spec: the type declarations of \<open>cron/types\<close> (\<open>CronJob\<close>,
  \<open>CronSchedule\<close>, \<open>CronPayload\<close>, \<open>PayloadAgentTurn\<close>, \<open>TIME_CONSTANTS\<close>) are
  not part of the sources at hand; the data model of the specification gives their
  fields, and the executor and the tools fix the names they read. A payload whose
  \<open>kind\<close> is neither \<open>systemEvent\<close> nor \<open>agentTurn\<close> (a store file may hold one) is
  \<open>OtherKind\<close> with that kind.
\<close>

datatype cron_schedule =
    At real
  | Every real
  | Cron string "string option"

record payload_agent_turn =
  pa_message :: string
  pa_model :: "string option"
  pa_timeoutSeconds :: "real option"
  pa_deliver :: "bool option"
  pa_channel :: "string option"
  pa_to :: "string option"

datatype cron_payload =
    SystemEvent string
  | AgentTurn payload_agent_turn
  | OtherKind string

datatype run_status = StatusOk | StatusError | StatusSkipped

record job_state =
  lastRunAtMs :: "real option"
  nextRunAtMs :: "real option"
  runCount :: nat
  lastError :: "string option"
  lastStatus :: "run_status option"

record cron_job =
  job_id :: string
  job_name :: string
  job_enabled :: bool
  job_schedule :: cron_schedule
  job_payload :: cron_payload
  createdAtMs :: real
  updatedAtMs :: real
  job_state :: job_state

text \<open>Modelled from the spec: \<open>TIME_CONSTANTS\<close>, the fixed factors of the
  \<open>everyUnit\<close> shorthand.\<close>

datatype every_unit = Seconds | Minutes | Hours | Days

fun unitMap :: "every_unit \<Rightarrow> real" where
  "unitMap Seconds = 1000"
| "unitMap Minutes = 60000"
| "unitMap Hours = 3600000"
| "unitMap Days = 86400000"

section \<open>Cron executor\<close>

text \<open>\<open>CronExecutionResult\<close>\<close>

record cron_execution_result =
  er_status :: run_status
  er_error :: "string option"
  er_summary :: "string option"
  er_outputText :: "string option"

text \<open>\<open>AgentExecutor\<close>: the model-turn callback reads and changes the external
  state and resolves to a result or rejects.\<close>

type_synonym 'e agent_executor = "agent_params \<Rightarrow> 'e \<Rightarrow> (js_exn + agent_result) \<times> 'e"

record 'e cron_executor_options =
  eo_agentExecutor :: "'e agent_executor option"
  eo_defaultChannel :: "string option"

text \<open>\<open>await agentExecutor(params)\<close>, recorded.\<close>

definition call_agentExecutor :: "'e agent_executor \<Rightarrow> agent_params \<Rightarrow> ('e world, agent_result) js" where
  "call_agentExecutor agent params w =
     (case agent params (ext w) of
        (r, e') \<Rightarrow> (r, \<lparr>ext = e', trace = trace w @ [AgentExecutorCalled params]\<rparr>))"

text \<open>The argument object of the callback: \<open>{message, sessionKey: `cron:${job.id}`,
  model, timeoutSeconds}\<close>.\<close>

definition agent_params_of :: "cron_job \<Rightarrow> payload_agent_turn \<Rightarrow> agent_params" where
  "agent_params_of job payload =
     \<lparr>ap_message = pa_message payload,
      ap_sessionKey = Some (''cron:'' @ job_id job),
      ap_model = pa_model payload,
      ap_timeoutSeconds = pa_timeoutSeconds payload\<rparr>"

definition validChannels :: "string list" where
  "validChannels = [''dingtalk'', ''feishu'', ''qq'', ''wecom'', ''webchat'']"

text \<open>\<open>resolveChannel(channel)\<close>, with the executor's \<open>defaultChannel\<close>.\<close>

definition resolveChannel :: "string option \<Rightarrow> string option \<Rightarrow> string option" where
  "resolveChannel defaultChannel channel =
     (if \<not> truthy_str channel \<or> channel = Some ''last'' then defaultChannel
      else if the channel \<in> set validChannels then channel
      else None)"

text \<open>The argument object of the delivery: \<open>{channel: channelId, to,
  payloads: [{text: outputText}], bestEffort: true}\<close>.\<close>

definition delivery_params :: "string \<Rightarrow> string \<Rightarrow> string \<Rightarrow> 'e outbound_params" where
  "delivery_params channelId to outputText =
     \<lparr>op_channel = channelId, op_to = to, op_accountId = None,
      op_payloads = [\<lparr>dp_text = outputText, dp_mediaUrls = None, dp_replyToId = None\<rparr>],
      op_bestEffort = Some True, op_abortSignal = None\<rparr>"

text \<open>\<open>deliverAgentOutput(job, payload, outputText)\<close>\<close>

definition deliverAgentOutput ::
  "'e registry \<Rightarrow> string option \<Rightarrow> cron_job \<Rightarrow> payload_agent_turn \<Rightarrow> string \<Rightarrow> ('e world, unit) js" where
  "deliverAgentOutput getChannel defaultChannel job payload outputText =
     (\<lambda>w. if \<not> truthy_str (pa_to payload) then returns () w
          else case resolveChannel defaultChannel (pa_channel payload) of
                 None \<Rightarrow> returns () w
               | Some channelId \<Rightarrow>
                   if channelId = [] then returns () w
                   else if \<not> isChannelAvailable getChannel channelId (ext w) then returns () w
                   else try_catch
                          (bind_js
                             (deliverOutboundPayloads getChannel
                                (delivery_params channelId (the (pa_to payload)) outputText))
                             (\<lambda>results. returns ()))
                          (\<lambda>err. returns ()) w)"

text \<open>\<open>executeSystemEvent(job)\<close>\<close>

definition executeSystemEvent :: "cron_job \<Rightarrow> ('e world, cron_execution_result) js" where
  "executeSystemEvent job =
     returns \<lparr>er_status = StatusOk, er_error = None,
              er_summary = Some ''System event executed'', er_outputText = None\<rparr>"

text \<open>\<open>executeAgentTurn(job, payload)\<close>\<close>

definition executeAgentTurn ::
  "'e registry \<Rightarrow> 'e cron_executor_options \<Rightarrow> cron_job \<Rightarrow> payload_agent_turn
     \<Rightarrow> ('e world, cron_execution_result) js" where
  "executeAgentTurn getChannel options job payload =
     (case eo_agentExecutor options of
        None \<Rightarrow> returns \<lparr>er_status = StatusSkipped, er_error = None,
                  er_summary = Some ''No agent executor configured'', er_outputText = None\<rparr>
      | Some agent \<Rightarrow>
          bind_js
            (try_catch
               (bind_js
                  (call_agentExecutor agent (agent_params_of job payload))
                  (\<lambda>agentResult. returns (Inr agentResult)))
               (\<lambda>err. returns (Inl \<lparr>er_status = StatusError, er_error = Some (error_text err),
                                    er_summary = None, er_outputText = None\<rparr>)))
            (\<lambda>outcome. case outcome of
               Inl early \<Rightarrow> returns early
             | Inr agentResult \<Rightarrow>
                 if \<not> ar_success agentResult
                 then returns \<lparr>er_status = StatusError,
                        er_error = Some (case ar_error agentResult of
                                           None \<Rightarrow> ''Agent execution failed'' | Some e \<Rightarrow> e),
                        er_summary = None, er_outputText = Some (ar_output agentResult)\<rparr>
                 else let outputText = ar_output agentResult
                      in bind_js
                           (if truthy_bool (pa_deliver payload) \<and> truthy_str (pa_to payload)
                            then deliverAgentOutput getChannel (eo_defaultChannel options) job
                                   payload outputText
                            else returns ())
                           (\<lambda>_. returns \<lparr>er_status = StatusOk, er_error = None,
                                   er_summary = Some (take 200 outputText),
                                   er_outputText = Some outputText\<rparr>)))"

text \<open>
  \<open>executeJob(job)\<close>. The \<open>try\<close> block returns the promise of the callee without
  awaiting it, so its \<open>catch\<close> covers only what is thrown while the \<open>switch\<close> itself
  is evaluated, which is nothing: a rejection of \<open>executeAgentTurn\<close> would pass
  through unchanged. The model therefore places no handler around the callee.
\<close>

definition executeJob ::
  "'e registry \<Rightarrow> 'e cron_executor_options \<Rightarrow> cron_job \<Rightarrow> ('e world, cron_execution_result) js" where
  "executeJob getChannel options job =
     (case job_payload job of
        SystemEvent message \<Rightarrow> executeSystemEvent job
      | AgentTurn payload \<Rightarrow> executeAgentTurn getChannel options job payload
      | OtherKind kind \<Rightarrow>
          returns \<lparr>er_status = StatusError,
                   er_error = Some (''Unknown payload kind: '' @ kind),
                   er_summary = None, er_outputText = None\<rparr>)"

section \<open>Scheduler service (interface)\<close>

text \<open>
  Modelled from the spec: the argument types of \<open>CronService.add\<close> and
  \<open>CronService.update\<close> (\<open>cron/service\<close> and \<open>cron/types\<close> are not part of the
  sources at hand). A patch may name \<open>name\<close>, \<open>enabled\<close>, \<open>schedule\<close> and
  \<open>payload\<close>; an absent key is \<open>None\<close>.
\<close>

record cron_job_create =
  jc_name :: string
  jc_schedule :: cron_schedule
  jc_payload :: cron_payload
  jc_enabled :: "bool option"

record job_patch =
  p_name :: "string option"
  p_enabled :: "bool option"
  p_schedule :: "cron_schedule option"
  p_payload :: "cron_payload option"

text \<open>The service the tools are built over is a parameter: its methods run over the
  service's state, of any type, and may throw.\<close>

record 'sv cron_service =
  svc_add :: "cron_job_create \<Rightarrow> ('sv, cron_job) js"
  svc_update :: "string \<Rightarrow> job_patch \<Rightarrow> ('sv, cron_job option) js"

section \<open>Tool facade\<close>

text \<open>
  A \<open>ToolResult\<close> is a list of text items and an optional \<open>isError\<close> flag. The texts
  are written in Chinese and render dates by locale, so a text item is kept as the
  template it is built from, with the values it interpolates:
  \<^item> \<open>ErrAtTimeMissing\<close>: an \<open>at\<close> task needs the \<open>atTime\<close> parameter;
  \<^item> \<open>ErrAtTimeInvalid\<close>: the format of \<open>atTime\<close> is invalid;
  \<^item> \<open>ErrEveryInterval\<close>: an \<open>every\<close> task needs a valid interval;
  \<^item> \<open>ErrCronExprMissing\<close>: a \<open>cron\<close> task needs the \<open>cronExpr\<close> parameter;
  \<^item> \<open>ErrCronExprInvalid\<close>: the cron expression is invalid, with the validator's error;
  \<^item> \<open>ErrDeliverNeedsTarget\<close>: an \<open>agentTurn\<close> task with \<open>deliver\<close> needs
    \<open>channel\<close> and \<open>to\<close>;
  \<^item> \<open>ErrInvalidChannel\<close>: invalid channel, with the channel and the supported ones;
  \<^item> \<open>ErrTimeoutRange\<close>: \<open>timeoutSeconds\<close> must be between 1 and 600 seconds;
  \<^item> \<open>JobCreated\<close>: the task was created, with the job, its task type and, when the
    output is delivered, the channel and the recipient;
  \<^item> \<open>ErrNoUpdateFields\<close>: no field to update was given;
  \<^item> \<open>ErrJobNotFound\<close>: no task with this id;
  \<^item> \<open>JobUpdated\<close>: the task was updated, with the job.
\<close>

datatype schedule_type = ScheduleAt | ScheduleEvery | ScheduleCron

datatype payload_type = PayloadSystemEvent | PayloadAgentTurn

datatype tool_text =
    ErrAtTimeMissing
  | ErrAtTimeInvalid
  | ErrEveryInterval
  | ErrCronExprMissing
  | ErrCronExprInvalid "string option"
  | ErrDeliverNeedsTarget
  | ErrInvalidChannel string "string list"
  | ErrTimeoutRange
  | JobCreated cron_job payload_type "(string option \<times> string option) option"
  | ErrNoUpdateFields
  | ErrJobNotFound string
  | JobUpdated cron_job

record tool_result =
  tr_content :: "tool_text list"
  tr_isError :: "bool option"

text \<open>The arguments of \<open>cron_add\<close>.\<close>

record cron_add_args =
  aa_name :: string
  aa_scheduleType :: schedule_type
  aa_atTime :: "string option"
  aa_everyMs :: "real option"
  aa_everyUnit :: "every_unit option"
  aa_everyValue :: "real option"
  aa_cronExpr :: "string option"
  aa_cronTz :: "string option"
  aa_message :: string
  aa_payloadType :: "payload_type option"
  aa_deliver :: "bool option"
  aa_channel :: "string option"
  aa_to :: "string option"
  aa_model :: "string option"
  aa_timeoutSeconds :: "real option"

text \<open>The result of \<open>validateCronExpr\<close> of \<open>cron/schedule\<close>; the validator itself
  and the date parser \<open>new Date(s).getTime()\<close> (\<open>None\<close> for \<open>NaN\<close>) are parameters.\<close>

record cron_validation =
  cv_valid :: bool
  cv_error :: "string option"

definition error_result :: "tool_text \<Rightarrow> tool_result" where
  "error_result t = \<lparr>tr_content = [t], tr_isError = Some True\<rparr>"

text \<open>
  The first block of \<open>cron_add\<close>'s \<open>execute\<close>: the schedule, or the error result
  it returns with. The code multiplies two doubles, and the product of two doubles is
  rounded (1.1 hours is 3960000.0000000005 milliseconds), so the multiplication is a
  parameter: \<open>multiply x y\<close> is the double the code computes. A product beyond the
  largest double, which the code turns into \<open>Infinity\<close>, is outside the model.
\<close>

definition cron_add_schedule ::
  "(string \<Rightarrow> real option) \<Rightarrow> (string \<Rightarrow> cron_validation) \<Rightarrow> (real \<Rightarrow> real \<Rightarrow> real)
     \<Rightarrow> cron_add_args \<Rightarrow> tool_result + cron_schedule" where
  "cron_add_schedule parseDate validateCronExpr multiply args =
     (case aa_scheduleType args of
        ScheduleAt \<Rightarrow>
          if \<not> truthy_str (aa_atTime args) then Inl (error_result ErrAtTimeMissing)
          else (case parseDate (the (aa_atTime args)) of
                  None \<Rightarrow> Inl (error_result ErrAtTimeInvalid)
                | Some atMs \<Rightarrow> Inr (At atMs))
      | ScheduleEvery \<Rightarrow>
          (let intervalMs =
                 (if \<not> truthy_num (aa_everyMs args) \<and> aa_everyUnit args \<noteq> None
                       \<and> truthy_num (aa_everyValue args)
                  then Some (multiply (the (aa_everyValue args))
                               (unitMap (the (aa_everyUnit args))))
                  else aa_everyMs args)
           in if \<not> truthy_num intervalMs \<or> the intervalMs \<le> 0
              then Inl (error_result ErrEveryInterval)
              else Inr (Every (the intervalMs)))
      | ScheduleCron \<Rightarrow>
          if \<not> truthy_str (aa_cronExpr args) then Inl (error_result ErrCronExprMissing)
          else (let validation = validateCronExpr (the (aa_cronExpr args))
                in if \<not> cv_valid validation
                   then Inl (error_result (ErrCronExprInvalid (cv_error validation)))
                   else Inr (Cron (the (aa_cronExpr args)) (aa_cronTz args))))"

definition toolChannels :: "string list" where
  "toolChannels = [''dingtalk'', ''feishu'', ''qq'', ''wecom'', ''webchat'', ''last'']"

text \<open>\<open>payloadType = "systemEvent"\<close> is the default of the destructuring.\<close>

definition payloadType_of :: "cron_add_args \<Rightarrow> payload_type" where
  "payloadType_of args =
     (case aa_payloadType args of None \<Rightarrow> PayloadSystemEvent | Some t \<Rightarrow> t)"

text \<open>The second block: the payload, or the error result it returns with.\<close>

definition cron_add_payload :: "cron_add_args \<Rightarrow> tool_result + cron_payload" where
  "cron_add_payload args =
     (if payloadType_of args = PayloadAgentTurn then
        if truthy_bool (aa_deliver args)
             \<and> (\<not> truthy_str (aa_channel args) \<or> \<not> truthy_str (aa_to args))
        then Inl (error_result ErrDeliverNeedsTarget)
        else if truthy_str (aa_channel args) \<and> the (aa_channel args) \<notin> set toolChannels
        then Inl (error_result (ErrInvalidChannel (the (aa_channel args)) toolChannels))
        else if aa_timeoutSeconds args \<noteq> None
                \<and> (the (aa_timeoutSeconds args) < 1 \<or> the (aa_timeoutSeconds args) > 600)
        then Inl (error_result ErrTimeoutRange)
        else Inr (AgentTurn \<lparr>pa_message = aa_message args, pa_model = aa_model args,
                    pa_timeoutSeconds = aa_timeoutSeconds args,
                    pa_deliver = aa_deliver args, pa_channel = aa_channel args,
                    pa_to = aa_to args\<rparr>)
      else Inr (SystemEvent (aa_message args)))"

text \<open>\<open>execute\<close> of the tool \<open>cron_add\<close>.\<close>

definition cron_add ::
  "(string \<Rightarrow> real option) \<Rightarrow> (string \<Rightarrow> cron_validation) \<Rightarrow> (real \<Rightarrow> real \<Rightarrow> real)
     \<Rightarrow> 'sv cron_service \<Rightarrow> cron_add_args \<Rightarrow> ('sv, tool_result) js" where
  "cron_add parseDate validateCronExpr multiply service args =
     (case cron_add_schedule parseDate validateCronExpr multiply args of
        Inl err \<Rightarrow> returns err
      | Inr schedule \<Rightarrow>
          (case cron_add_payload args of
             Inl err \<Rightarrow> returns err
           | Inr payload \<Rightarrow>
               bind_js
                 (svc_add service \<lparr>jc_name = aa_name args, jc_schedule = schedule,
                                    jc_payload = payload, jc_enabled = None\<rparr>)
                 (\<lambda>job. returns
                    \<lparr>tr_content =
                       [JobCreated job (payloadType_of args)
                          (if payloadType_of args = PayloadAgentTurn
                                \<and> truthy_bool (aa_deliver args)
                           then Some (aa_channel args, aa_to args) else None)],
                     tr_isError = None\<rparr>)))"

text \<open>The arguments and \<open>execute\<close> of the tool \<open>cron_update\<close>.\<close>

record cron_update_args =
  ua_jobId :: string
  ua_name :: "string option"
  ua_enabled :: "bool option"

text \<open>The \<open>updates\<close> object the tool builds: the keys \<open>name\<close> and \<open>enabled\<close>,
  each only when the argument is given, and no other key.\<close>

definition cron_update_patch :: "cron_update_args \<Rightarrow> job_patch" where
  "cron_update_patch args =
     \<lparr>p_name = ua_name args, p_enabled = ua_enabled args,
      p_schedule = None, p_payload = None\<rparr>"

definition cron_update :: "'sv cron_service \<Rightarrow> cron_update_args \<Rightarrow> ('sv, tool_result) js" where
  "cron_update service args =
     (let updates = cron_update_patch args
      in if p_name updates = None \<and> p_enabled updates = None
         then returns (error_result ErrNoUpdateFields)
         else bind_js (svc_update service (ua_jobId args) updates)
                (\<lambda>job. case job of
                   None \<Rightarrow> returns (error_result (ErrJobNotFound (ua_jobId args)))
                 | Some j \<Rightarrow> returns \<lparr>tr_content = [JobUpdated j], tr_isError = None\<rparr>))"

text \<open>
  Modelled from the spec: \<open>CronService.add\<close> and \<open>CronService.update\<close>
  (\<open>cron/service\<close> is not part of the sources at hand). The service holds the job set
  and the events it has emitted. \<open>add\<close> assigns an id, stamps \<open>createdAtMs\<close> and
  \<open>updatedAtMs\<close>, sets \<open>enabled\<close> unless it is explicitly false, computes the
  initial \<open>nextRunAtMs\<close>, persists and emits \<open>job.added\<close>. An \<open>update\<close> of an
  unknown id returns nothing and changes nothing; otherwise the fields the patch names
  are replaced, \<open>updatedAtMs\<close> is stamped, \<open>nextRunAtMs\<close> is recomputed by the
  schedule calculator (a disabled job has none), the job set is persisted and
  \<open>job.updated\<close> is emitted with the job. The clock reading \<open>now\<close>, the schedule
  calculator and the generator of ids are parameters.
\<close>

datatype service_event = JobAddedEvent cron_job | JobUpdatedEvent cron_job

record service_state =
  jobs :: "cron_job list"
  emitted :: "service_event list"

definition spec_add ::
  "(cron_schedule \<Rightarrow> real option \<Rightarrow> real \<Rightarrow> real option) \<Rightarrow> real \<Rightarrow> (cron_job list \<Rightarrow> string)
     \<Rightarrow> cron_job_create \<Rightarrow> (service_state, cron_job) js" where
  "spec_add calculator now newId create sv =
     (let enabled = (jc_enabled create \<noteq> Some False);
          job = \<lparr>job_id = newId (jobs sv), job_name = jc_name create, job_enabled = enabled,
                 job_schedule = jc_schedule create, job_payload = jc_payload create,
                 createdAtMs = now, updatedAtMs = now,
                 job_state = \<lparr>lastRunAtMs = None,
                               nextRunAtMs = (if enabled
                                              then calculator (jc_schedule create) None now
                                              else None),
                               runCount = 0, lastError = None, lastStatus = None\<rparr>\<rparr>
      in (Inr job, \<lparr>jobs = jobs sv @ [job], emitted = emitted sv @ [JobAddedEvent job]\<rparr>))"

definition apply_patch :: "job_patch \<Rightarrow> cron_job \<Rightarrow> cron_job" where
  "apply_patch patch job =
     job\<lparr>job_name := (case p_name patch of None \<Rightarrow> job_name job | Some n \<Rightarrow> n),
         job_enabled := (case p_enabled patch of None \<Rightarrow> job_enabled job | Some b \<Rightarrow> b),
         job_schedule := (case p_schedule patch of None \<Rightarrow> job_schedule job | Some sc \<Rightarrow> sc),
         job_payload := (case p_payload patch of None \<Rightarrow> job_payload job | Some pl \<Rightarrow> pl)\<rparr>"

text \<open>The job with the given id, which is unique in the store, is replaced in place.\<close>

fun replace_job :: "string \<Rightarrow> cron_job \<Rightarrow> cron_job list \<Rightarrow> cron_job list" where
  "replace_job ident updated [] = []"
| "replace_job ident updated (j # js) =
     (if job_id j = ident then updated # js else j # replace_job ident updated js)"

definition spec_update ::
  "(cron_schedule \<Rightarrow> real option \<Rightarrow> real \<Rightarrow> real option) \<Rightarrow> real \<Rightarrow> string \<Rightarrow> job_patch
     \<Rightarrow> (service_state, cron_job option) js" where
  "spec_update calculator now ident patch sv =
     (case find (\<lambda>j. job_id j = ident) (jobs sv) of
        None \<Rightarrow> (Inr None, sv)
      | Some job \<Rightarrow>
          (let patched = apply_patch patch job;
               updated = patched
                 \<lparr>updatedAtMs := now,
                  job_state := (job_state patched)
                    \<lparr>nextRunAtMs :=
                       (if job_enabled patched
                        then calculator (job_schedule patched)
                               (lastRunAtMs (job_state patched)) now
                        else None)\<rparr>\<rparr>
           in (Inr (Some updated),
               \<lparr>jobs = replace_job ident updated (jobs sv),
                emitted = emitted sv @ [JobUpdatedEvent updated]\<rparr>)))"

definition spec_service ::
  "(cron_schedule \<Rightarrow> real option \<Rightarrow> real \<Rightarrow> real option) \<Rightarrow> real \<Rightarrow> (cron_job list \<Rightarrow> string)
     \<Rightarrow> service_state cron_service" where
  "spec_service calculator now newId =
     \<lparr>svc_add = spec_add calculator now newId, svc_update = spec_update calculator now\<rparr>"

section \<open>Reading a run\<close>

text \<open>The deliveries attempted in a record of calls, in order: the payload of each
  call of \<open>deliverMessage\<close> and the best-effort mode it ran in.\<close>

fun attempts :: "event list \<Rightarrow> (delivery_payload \<times> bool) list" where
  "attempts [] = []"
| "attempts (DeliverMessageCalled t p b # evs) = (p, b) # attempts evs"
| "attempts (ev # evs) = attempts evs"

text \<open>The calls of \<open>deliverOutboundPayloads\<close> in a record of calls, in order.\<close>

fun deliveries :: "event list \<Rightarrow> event list" where
  "deliveries [] = []"
| "deliveries (DeliverOutboundPayloadsCalled c t ps b # evs) =
     DeliverOutboundPayloadsCalled c t ps b # deliveries evs"
| "deliveries (ev # evs) = deliveries evs"

text \<open>The world right after the callback has resolved: its call is recorded and the
  external state is the one it left.\<close>

definition after_agent :: "'e world \<Rightarrow> agent_params \<Rightarrow> 'e \<Rightarrow> 'e world" where
  "after_agent w params e' = \<lparr>ext = e', trace = trace w @ [AgentExecutorCalled params]\<rparr>"

text \<open>
  The channel rule in the words of the specification, for comparison with
  \<open>resolveChannel\<close>: \<open>last\<close> maps to the configured default channel, any other id in
  the recognised set passes through, anything else resolves to none.
\<close>

definition claimed_resolveChannel :: "string option \<Rightarrow> string option \<Rightarrow> string option" where
  "claimed_resolveChannel defaultChannel channel =
     (if channel = Some ''last'' then defaultChannel
      else if channel \<in> Some ` set validChannels then channel
      else None)"

text \<open>The calls recorded between an earlier and a later world.\<close>

definition new_calls :: "'e world \<Rightarrow> 'e world \<Rightarrow> event list" where
  "new_calls w w' = drop (length (trace w)) (trace w')"

text \<open>
  The state of the loop of \<open>deliverMessages\<close> at the top of the pass that follows the
  given payloads: the results recorded and the world reached, provided every pass so far
  went on to the next payload (\<open>None\<close> when one of them left the loop).
\<close>

fun deliverMessages_prefix ::
  "'e registry \<Rightarrow> delivery_target \<Rightarrow> 'e delivery_options option \<Rightarrow> delivery_payload list
     \<Rightarrow> delivery_result list \<Rightarrow> 'e world \<Rightarrow> (delivery_result list \<times> 'e world) option" where
  "deliverMessages_prefix getChannel target options [] results w = Some (results, w)"
| "deliverMessages_prefix getChannel target options (payload # rest) results w =
     (case deliverMessages_iteration getChannel target options payload results w of
        (Inr (Continue results'), w') \<Rightarrow>
          deliverMessages_prefix getChannel target options rest results' w'
      | _ \<Rightarrow> None)"

section \<open>Stubs for the examples\<close>

text \<open>
  Stub collaborators in the style of the test suite. The external state is the number of
  \<open>sendMessage\<close> calls made so far. \<open>mockChannel\<close> and \<open>mockGetChannel\<close> are the mocks
  of the outbound tests: \<open>dingtalk\<close> and \<open>feishu\<close> are registered and every send
  succeeds with the message id \<open>msg-123\<close>. The other channels fail on their second send,
  fail without an error text, or throw.
\<close>

definition mockChannel :: "nat channel" where
  "mockChannel message n =
     (Inr \<lparr>sr_success = True, sr_messageId = Some ''msg-123'', sr_error = None\<rparr>, Suc n)"

definition mockGetChannel :: "nat registry" where
  "mockGetChannel n ident =
     (if ident = ''dingtalk'' \<or> ident = ''feishu'' then Some mockChannel else None)"

definition secondFailsChannel :: "nat channel" where
  "secondFailsChannel message n =
     (if Suc n = 2
      then Inr \<lparr>sr_success = False, sr_messageId = None, sr_error = Some ''Failed''\<rparr>
      else Inr \<lparr>sr_success = True, sr_messageId = Some ''msg'', sr_error = None\<rparr>, Suc n)"

definition silentFailChannel :: "nat channel" where
  "silentFailChannel message n =
     (Inr \<lparr>sr_success = False, sr_messageId = None, sr_error = None\<rparr>, Suc n)"

definition throwingChannel :: "nat channel" where
  "throwingChannel message n = (Inl (JsError ''boom''), Suc n)"

definition textPayload :: "string \<Rightarrow> delivery_payload" where
  "textPayload s = \<lparr>dp_text = s, dp_mediaUrls = None, dp_replyToId = None\<rparr>"

definition toUser :: "string \<Rightarrow> delivery_target" where
  "toUser ident = \<lparr>dt_channel = ident, dt_to = ''user123'', dt_accountId = None\<rparr>"

definition world0 :: "nat world" where
  "world0 = \<lparr>ext = 0, trace = []\<rparr>"

definition optionsWith :: "bool option \<Rightarrow> (nat \<Rightarrow> bool) option \<Rightarrow> nat delivery_options option" where
  "optionsWith bestEffort abortSignal =
     Some \<lparr>do_bestEffort = bestEffort, do_timeoutMs = None, do_abortSignal = abortSignal\<rparr>"

text \<open>
  Stub model-turn callbacks, which leave the external state alone: one succeeds with the
  output of scenario S3, one fails with the error of scenario S4, one fails without an
  error text, one throws. The job asks for its output to be delivered to \<open>u1\<close> on the
  given channel.
\<close>

definition sunnyAgent :: "nat agent_executor" where
  "sunnyAgent params n =
     (Inr \<lparr>ar_success = True, ar_output = ''The weather is sunny today!'',
            ar_error = None\<rparr>, n)"

definition unavailableAgent :: "nat agent_executor" where
  "unavailableAgent params n =
     (Inr \<lparr>ar_success = False, ar_output = [], ar_error = Some ''Model unavailable''\<rparr>, n)"

definition silentFailAgent :: "nat agent_executor" where
  "silentFailAgent params n =
     (Inr \<lparr>ar_success = False, ar_output = ''partial'', ar_error = None\<rparr>, n)"

definition throwingAgent :: "nat agent_executor" where
  "throwingAgent params n = (Inl (JsError ''timeout''), n)"

definition weatherTurn :: "string option \<Rightarrow> payload_agent_turn" where
  "weatherTurn channel =
     \<lparr>pa_message = ''weather'', pa_model = None, pa_timeoutSeconds = None,
      pa_deliver = Some True, pa_channel = channel, pa_to = Some ''u1''\<rparr>"

definition jobWith :: "cron_payload \<Rightarrow> cron_job" where
  "jobWith payload =
     \<lparr>job_id = ''j1'', job_name = ''J1'', job_enabled = True, job_schedule = Every 60000,
      job_payload = payload, createdAtMs = 1000000, updatedAtMs = 1000000,
      job_state = \<lparr>lastRunAtMs = None, nextRunAtMs = Some 1060000, runCount = 0,
                    lastError = None, lastStatus = None\<rparr>\<rparr>"

definition executorWith :: "nat agent_executor \<Rightarrow> string option \<Rightarrow> nat cron_executor_options" where
  "executorWith agent channel = \<lparr>eo_agentExecutor = Some agent, eo_defaultChannel = channel\<rparr>"

text \<open>
  Stubs for the tools: a date parser that knows one instant, a validator that accepts
  one expression, a calculator for \<open>every\<close> schedules, ids numbered by the size of the
  job set, the clock of the tool tests, and a store holding the job \<open>j1\<close>. The examples
  multiply small integers, whose double product is the exact one, \<open>times\<close>.
\<close>

definition stubParseDate :: "string \<Rightarrow> real option" where
  "stubParseDate s = (if s = ''2024-01-01T10:00:00'' then Some 1704103200000 else None)"

definition stubValidate :: "string \<Rightarrow> cron_validation" where
  "stubValidate expr =
     (if expr = ''0 9 * * *'' then \<lparr>cv_valid = True, cv_error = None\<rparr>
      else \<lparr>cv_valid = False, cv_error = Some ''bad expression''\<rparr>)"

definition stubCalculator :: "cron_schedule \<Rightarrow> real option \<Rightarrow> real \<Rightarrow> real option" where
  "stubCalculator schedule lastRun now =
     (case schedule of Every ms \<Rightarrow> Some (now + ms) | _ \<Rightarrow> None)"

definition stubNewId :: "cron_job list \<Rightarrow> string" where
  "stubNewId js = replicate (Suc (length js)) CHR ''j''"

definition stubService :: "service_state cron_service" where
  "stubService = spec_service stubCalculator 1000000 stubNewId"

definition store0 :: service_state where
  "store0 = \<lparr>jobs = [jobWith (SystemEvent ''hello'')], emitted = []\<rparr>"

definition everyFiveMinutes :: cron_add_args where
  "everyFiveMinutes =
     \<lparr>aa_name = ''Job'', aa_scheduleType = ScheduleEvery, aa_atTime = None,
      aa_everyMs = None, aa_everyUnit = Some Minutes, aa_everyValue = Some 5,
      aa_cronExpr = None, aa_cronTz = None, aa_message = ''test'',
      aa_payloadType = Some PayloadAgentTurn, aa_deliver = None, aa_channel = None,
      aa_to = None, aa_model = None, aa_timeoutSeconds = None\<rparr>"

section \<open>Properties of the delivery service\<close>

lemmas js_defs = returns_def throws_def bind_js_def try_catch_def record_call_def

lemma attempts_append: "attempts (xs @ ys) = attempts xs @ attempts ys"
  by (induction xs rule: attempts.induct) simp_all

lemma bestEffort_with: "bestEffort_or_false (Some (with_bestEffort options))"
  by (cases options) (simp_all add: bestEffort_or_false_def with_bestEffort_def)

text \<open>In best-effort mode a single delivery returns, and records its own call
  followed by at most the call of the channel.\<close>

lemma deliverMessage_bestEffort:
  assumes "bestEffort_or_false options"
  shows "\<exists>r w' evs. deliverMessage getChannel target payload options w = (Inr r, w')
           \<and> trace w' = trace w @ DeliverMessageCalled target payload True # evs
           \<and> attempts evs = []"
  using assms
  by (auto simp: deliverMessage_def Let_def js_defs call_sendMessage_def
      split: option.splits prod.splits sum.splits)

lemma iteration_aborted:
  "signal_aborted options (ext w) \<Longrightarrow>
   deliverMessages_iteration getChannel target options payload results w =
     (Inr (Break (results @ [abortedResult target])), w)"
  by (simp add: deliverMessages_iteration_def returns_def abortedResult_def)

lemma iteration_attempt:
  assumes "\<not> signal_aborted options (ext w)"
  shows "\<exists>r w' evs.
           deliverMessage getChannel target payload (Some (with_bestEffort options)) w = (Inr r, w')
         \<and> trace w' = trace w @ DeliverMessageCalled target payload True # evs
         \<and> attempts evs = []
         \<and> deliverMessages_iteration getChannel target options payload results w =
             (Inr (if \<not> dr_success r \<and> \<not> options_bestEffort options
                   then Break (results @ [r]) else Continue (results @ [r])), w')"
proof -
  obtain r w' evs where d:
    "deliverMessage getChannel target payload (Some (with_bestEffort options)) w = (Inr r, w')"
    "trace w' = trace w @ DeliverMessageCalled target payload True # evs" "attempts evs = []"
    using deliverMessage_bestEffort[OF bestEffort_with] by blast
  have "deliverMessages_iteration getChannel target options payload results w =
          (Inr (if \<not> dr_success r \<and> \<not> options_bestEffort options
                then Break (results @ [r]) else Continue (results @ [r])), w')"
    using assms d(1) by (simp add: deliverMessages_iteration_def js_defs)
  with d show ?thesis by blast
qed

lemma iteration_returns:
  "\<exists>c w'. deliverMessages_iteration getChannel target options payload results w = (Inr c, w')"
proof (cases "signal_aborted options (ext w)")
  case True
  then show ?thesis by (simp add: iteration_aborted)
next
  case False
  from iteration_attempt[OF this, of getChannel target payload results]
  obtain c w' where
    "deliverMessages_iteration getChannel target options payload results w = (Inr c, w')"
    by blast
  then show ?thesis by blast
qed

lemma loop_returns:
  "\<exists>rs w'. deliverMessages_loop getChannel target options payloads results w = (Inr rs, w')"
proof (induction payloads arbitrary: results w)
  case Nil
  then show ?case by simp
next
  case (Cons p ps)
  obtain c w1 where it: "deliverMessages_iteration getChannel target options p results w = (Inr c, w1)"
    using iteration_returns by blast
  show ?case
  proof (cases c)
    case (Continue rs')
    with it Cons.IH[of rs' w1] show ?thesis by simp
  next
    case (Break rs')
    with it show ?thesis by simp
  qed
qed






lemma deliverMessages_returns:
  "\<exists>rs w'. deliverMessages getChannel target payloads options w = (Inr rs, w')"
  by (simp add: deliverMessages_def loop_returns)






text \<open>The passes before an abort.\<close>

lemma iteration_Continue:
  assumes "deliverMessages_iteration getChannel target options payload results w =
             (Inr (Continue results'), w')"
  shows "\<not> signal_aborted options (ext w) \<and> length results' = Suc (length results)
         \<and> (\<exists>evs. trace w' = trace w @ DeliverMessageCalled target payload True # evs
                \<and> attempts evs = [])"
proof (cases "signal_aborted options (ext w)")
  case True
  with assms show ?thesis by (simp add: iteration_aborted)
next
  case False
  from iteration_attempt[OF False, of getChannel target payload results] assms False
  show ?thesis by (auto split: if_splits)
qed

lemma prefix_then_loop:
  assumes "deliverMessages_prefix getChannel target options pre results w = Some (rs, w')"
  shows "deliverMessages_loop getChannel target options (pre @ rest) results w =
           deliverMessages_loop getChannel target options rest rs w'"
  using assms
  by (induction pre arbitrary: results w)
     (auto split: prod.splits sum.splits loop_ctl.splits)

lemma prefix_shape:
  assumes "deliverMessages_prefix getChannel target options pre results w = Some (rs, w')"
  shows "length rs = length results + length pre
         \<and> (\<exists>evs. trace w' = trace w @ evs \<and> attempts evs = map (\<lambda>p. (p, True)) pre)"
  using assms
proof (induction pre arbitrary: results w)
  case Nil
  then show ?case by simp
next
  case (Cons p ps)
  from Cons.prems obtain rs1 w1 where
    it: "deliverMessages_iteration getChannel target options p results w = (Inr (Continue rs1), w1)"
    and rest: "deliverMessages_prefix getChannel target options ps rs1 w1 = Some (rs, w')"
    by (auto split: prod.splits sum.splits loop_ctl.splits)
  from iteration_Continue[OF it] obtain evs where
    a: "length rs1 = Suc (length results)"
      "trace w1 = trace w @ DeliverMessageCalled target p True # evs" "attempts evs = []"
    by blast
  from Cons.IH[OF rest] obtain evs1 where
    b: "length rs = length rs1 + length ps" "trace w' = trace w1 @ evs1"
      "attempts evs1 = map (\<lambda>p. (p, True)) ps"
    by blast
  have "trace w' = trace w @ (DeliverMessageCalled target p True # evs @ evs1)
        \<and> attempts (DeliverMessageCalled target p True # evs @ evs1)
            = map (\<lambda>p. (p, True)) (p # ps)"
    using a b by (simp add: attempts_append)
  then have "\<exists>evs. trace w' = trace w @ evs \<and> attempts evs = map (\<lambda>p. (p, True)) (p # ps)"
    by blast
  moreover have "length rs = length results + length (p # ps)"
    using a(1) b(1) by simp
  ultimately show ?case by blast
qed

text \<open>With \<open>bestEffort\<close> not set, a pass goes on only after a successful attempt.\<close>

lemma prefix_successes:
  assumes "deliverMessages_prefix getChannel target options pre results w = Some (rs, w')"
    and "\<not> options_bestEffort options" and "list_all dr_success results"
  shows "list_all dr_success rs"
  using assms(1,3)
proof (induction pre arbitrary: results w)
  case Nil
  then show ?case by simp
next
  case (Cons p ps)
  from Cons.prems(1) obtain rs1 w1 where
    it: "deliverMessages_iteration getChannel target options p results w = (Inr (Continue rs1), w1)"
    and rest: "deliverMessages_prefix getChannel target options ps rs1 w1 = Some (rs, w')"
    by (auto split: prod.splits sum.splits loop_ctl.splits)
  from iteration_Continue[OF it] have na: "\<not> signal_aborted options (ext w)" by simp
  from iteration_attempt[OF na, of getChannel target p results] it assms(2)
  obtain r where "rs1 = results @ [r]" "dr_success r"
    by (auto split: if_splits)
  with Cons.prems(2) have "list_all dr_success rs1" by simp
  from Cons.IH[OF rest this] show ?case .
qed

lemma new_calls_append: "trace w' = trace w @ evs \<Longrightarrow> new_calls w w' = evs"
  by (simp add: new_calls_def)

lemmas fixture_defs = mockChannel_def mockGetChannel_def secondFailsChannel_def
  silentFailChannel_def throwingChannel_def textPayload_def toUser_def world0_def optionsWith_def

lemmas delivery_defs = deliverMessages_def deliverMessages_iteration_def deliverMessage_def
  deliverOutboundPayloads_def call_sendMessage_def bestEffort_or_false_def options_bestEffort_def
  signal_aborted_def with_bestEffort_def abortedResult_def new_calls_def js_defs Let_def

lemma deliverMessage_notFound:
  assumes "getChannel (ext w) (dt_channel target) = None"
  shows "deliverMessage getChannel target payload options w =
           (if bestEffort_or_false options
            then Inr \<lparr>dr_success = False, dr_channel = dt_channel target, dr_messageId = None,
                      dr_error = Some (''Channel not found: '' @ dt_channel target),
                      dr_errorDetails = None\<rparr>
            else Inl (JsError (''Channel not found: '' @ dt_channel target)),
            w\<lparr>trace := trace w @ [DeliverMessageCalled target payload (bestEffort_or_false options)]\<rparr>)"
  using assms by (simp add: deliverMessage_def Let_def js_defs)

lemma deliverMessage_send_failed:
  assumes "getChannel (ext w) (dt_channel target) = Some channel"
    and "channel \<lparr>chatId = dt_to target, content = dp_text payload,
                   replyToId = dp_replyToId payload, mediaUrls = dp_mediaUrls payload\<rparr> (ext w)
           = (Inr result, e')"
    and "\<not> sr_success result"
  shows "deliverMessage getChannel target payload options w =
           (if bestEffort_or_false options
            then Inr \<lparr>dr_success = False, dr_channel = dt_channel target, dr_messageId = None,
                      dr_error = sr_error result, dr_errorDetails = None\<rparr>
            else Inl (JsError (case sr_error result of None \<Rightarrow> ''Unknown error'' | Some e \<Rightarrow> e)),
            \<lparr>ext = e',
             trace = trace w @ [DeliverMessageCalled target payload (bestEffort_or_false options),
                                SendMessageCalled (dt_channel target)
                                  \<lparr>chatId = dt_to target, content = dp_text payload,
                                   replyToId = dp_replyToId payload,
                                   mediaUrls = dp_mediaUrls payload\<rparr>]\<rparr>)"
  using assms by (simp add: deliverMessage_def Let_def js_defs call_sendMessage_def)



lemma deliverOutboundPayloads_returns:
  "\<exists>rs w'. deliverOutboundPayloads getChannel params w = (Inr rs, w')"
proof -
  obtain rs w' where
    "deliverMessages getChannel
       \<lparr>dt_channel = op_channel params, dt_to = op_to params, dt_accountId = op_accountId params\<rparr>
       (op_payloads params)
       (Some \<lparr>do_bestEffort = Some (case op_bestEffort params of None \<Rightarrow> False | Some b \<Rightarrow> b),
              do_timeoutMs = None, do_abortSignal = op_abortSignal params\<rparr>)
       (w\<lparr>trace := trace w @ [DeliverOutboundPayloadsCalled (op_channel params) (op_to params)
                                 (op_payloads params) (op_bestEffort params)]\<rparr>) = (Inr rs, w')"
    using deliverMessages_returns by blast
  then show ?thesis
    by (simp add: deliverOutboundPayloads_def Let_def js_defs)
qed

section \<open>Properties of the executor\<close>

lemma deliveries_append: "deliveries (xs @ ys) = deliveries xs @ deliveries ys"
  by (induction xs rule: deliveries.induct) simp_all

text \<open>The delivery of a batch records no call of \<open>deliverOutboundPayloads\<close>.\<close>

lemma deliverMessage_calls:
  "\<exists>evs. trace (snd (deliverMessage getChannel target payload options w)) = trace w @ evs
         \<and> deliveries evs = []"
  by (auto simp: deliverMessage_def Let_def js_defs call_sendMessage_def
      split: option.splits prod.splits sum.splits)

lemma iteration_calls:
  "\<exists>evs. trace (snd (deliverMessages_iteration getChannel target options payload results w))
           = trace w @ evs
         \<and> deliveries evs = []"
proof (cases "signal_aborted options (ext w)")
  case True
  then show ?thesis by (simp add: iteration_aborted)
next
  case False
  from iteration_attempt[OF False, of getChannel target payload results]
  obtain r w' where d: "deliverMessage getChannel target payload (Some (with_bestEffort options)) w
      = (Inr r, w')"
    and it: "snd (deliverMessages_iteration getChannel target options payload results w) = w'"
    by auto
  from deliverMessage_calls[of getChannel target payload "Some (with_bestEffort options)" w] d it
  show ?thesis by simp
qed

lemma loop_calls:
  "\<exists>evs. trace (snd (deliverMessages_loop getChannel target options payloads results w))
           = trace w @ evs
         \<and> deliveries evs = []"
proof (induction payloads arbitrary: results w)
  case Nil
  then show ?case by simp
next
  case (Cons p ps)
  obtain c w1 where it: "deliverMessages_iteration getChannel target options p results w = (Inr c, w1)"
    using iteration_returns by blast
  from iteration_calls[of getChannel target options p results w] it
  obtain evs where e: "trace w1 = trace w @ evs" "deliveries evs = []" by auto
  show ?case
  proof (cases c)
    case (Continue rs')
    from Cons.IH[of rs' w1] obtain evs1 where
      "trace (snd (deliverMessages_loop getChannel target options ps rs' w1)) = trace w1 @ evs1"
      "deliveries evs1 = []" by blast
    with e have "trace (snd (deliverMessages_loop getChannel target options ps rs' w1))
                   = trace w @ (evs @ evs1) \<and> deliveries (evs @ evs1) = []"
      by (simp add: deliveries_append)
    with it Continue show ?thesis by auto
  next
    case (Break rs')
    with it e show ?thesis by simp
  qed
qed

lemma deliverOutboundPayloads_calls:
  "\<exists>rs w' evs. deliverOutboundPayloads getChannel params w = (Inr rs, w')
      \<and> trace w' = trace w @ DeliverOutboundPayloadsCalled (op_channel params) (op_to params)
                               (op_payloads params) (op_bestEffort params) # evs
      \<and> deliveries evs = []"
proof (cases "op_payloads params = []")
  case True
  then show ?thesis by (simp add: deliverOutboundPayloads_def Let_def js_defs)
next
  case False
  let ?w0 = "w\<lparr>trace := trace w @ [DeliverOutboundPayloadsCalled (op_channel params) (op_to params)
                                 (op_payloads params) (op_bestEffort params)]\<rparr>"
  let ?t = "\<lparr>dt_channel = op_channel params, dt_to = op_to params, dt_accountId = op_accountId params\<rparr>"
  let ?o = "Some \<lparr>do_bestEffort = Some (case op_bestEffort params of None \<Rightarrow> False | Some b \<Rightarrow> b),
              do_timeoutMs = None, do_abortSignal = op_abortSignal params\<rparr>"
  obtain rs w' where run: "deliverMessages_loop getChannel ?t ?o (op_payloads params) [] ?w0 = (Inr rs, w')"
    using loop_returns by blast
  from loop_calls[of getChannel ?t ?o "op_payloads params" "[]" ?w0] run
  obtain evs where "trace w' = trace ?w0 @ evs" "deliveries evs = []" by auto
  with run False show ?thesis
    by (simp add: deliverOutboundPayloads_def deliverMessages_def Let_def js_defs)
qed

text \<open>\<open>deliverAgentOutput\<close> returns, whatever the delivery does.\<close>

text \<open>\<open>deliverAgentOutput\<close> returns, whatever the delivery does.\<close>

lemma deliverAgentOutput_eq:
  "deliverAgentOutput getChannel defaultChannel job payload outputText w =
     (Inr (),
      if truthy_str (pa_to payload) then
        (case resolveChannel defaultChannel (pa_channel payload) of
           None \<Rightarrow> w
         | Some c \<Rightarrow>
             if c = [] \<or> getChannel (ext w) c = None then w
             else snd (deliverOutboundPayloads getChannel
                         (delivery_params c (the (pa_to payload)) outputText) w))
      else w)"
proof -
  have *: "\<And>c. try_catch
             (bind_js (deliverOutboundPayloads getChannel
                        (delivery_params c (the (pa_to payload)) outputText))
                (\<lambda>results. returns ()))
             (\<lambda>err. returns ()) w
           = (Inr (), snd (deliverOutboundPayloads getChannel
                         (delivery_params c (the (pa_to payload)) outputText) w))"
  proof -
    fix c
    obtain rs w' where "deliverOutboundPayloads getChannel
        (delivery_params c (the (pa_to payload)) outputText) w = (Inr rs, w')"
      using deliverOutboundPayloads_returns by blast
    then show "try_catch
             (bind_js (deliverOutboundPayloads getChannel
                        (delivery_params c (the (pa_to payload)) outputText))
                (\<lambda>results. returns ()))
             (\<lambda>err. returns ()) w
           = (Inr (), snd (deliverOutboundPayloads getChannel
                         (delivery_params c (the (pa_to payload)) outputText) w))"
      by (simp add: js_defs)
  qed
  show ?thesis
    by (simp add: deliverAgentOutput_def isChannelAvailable_def returns_def
        *[unfolded delivery_params_def] delivery_params_def split: option.splits)
qed

lemma executeAgentTurn_throws:
  assumes "eo_agentExecutor options = Some agent"
    and "agent (agent_params_of job payload) (ext w) = (Inl err, e')"
  shows "executeAgentTurn getChannel options job payload w =
           (Inr \<lparr>er_status = StatusError, er_error = Some (error_text err),
                  er_summary = None, er_outputText = None\<rparr>,
            \<lparr>ext = e', trace = trace w @ [AgentExecutorCalled (agent_params_of job payload)]\<rparr>)"
  using assms by (simp add: executeAgentTurn_def call_agentExecutor_def js_defs)

lemma executeAgentTurn_failed:
  assumes "eo_agentExecutor options = Some agent"
    and "agent (agent_params_of job payload) (ext w) = (Inr agentResult, e')"
    and "\<not> ar_success agentResult"
  shows "executeAgentTurn getChannel options job payload w =
           (Inr \<lparr>er_status = StatusError,
                  er_error = Some (case ar_error agentResult of
                                     None \<Rightarrow> ''Agent execution failed'' | Some e \<Rightarrow> e),
                  er_summary = None, er_outputText = Some (ar_output agentResult)\<rparr>,
            \<lparr>ext = e', trace = trace w @ [AgentExecutorCalled (agent_params_of job payload)]\<rparr>)"
  using assms by (simp add: executeAgentTurn_def call_agentExecutor_def js_defs)

lemma executeAgentTurn_succeeded:
  assumes "eo_agentExecutor options = Some agent"
    and "agent (agent_params_of job payload) (ext w) = (Inr agentResult, e')"
    and "ar_success agentResult"
  shows "executeAgentTurn getChannel options job payload w =
           (Inr \<lparr>er_status = StatusOk, er_error = None,
                  er_summary = Some (take 200 (ar_output agentResult)),
                  er_outputText = Some (ar_output agentResult)\<rparr>,
            if truthy_bool (pa_deliver payload) \<and> truthy_str (pa_to payload)
            then snd (deliverAgentOutput getChannel (eo_defaultChannel options) job payload
                        (ar_output agentResult)
                        \<lparr>ext = e', trace = trace w @ [AgentExecutorCalled (agent_params_of job payload)]\<rparr>)
            else \<lparr>ext = e', trace = trace w @ [AgentExecutorCalled (agent_params_of job payload)]\<rparr>)"
  using assms
  by (simp add: executeAgentTurn_def call_agentExecutor_def js_defs Let_def deliverAgentOutput_eq)

lemma executeAgentTurn_returns:
  "\<exists>r w'. executeAgentTurn getChannel options job payload w = (Inr r, w')"
proof (cases "eo_agentExecutor options")
  case None
  then show ?thesis by (simp add: executeAgentTurn_def returns_def)
next
  case (Some agent)
  obtain out e' where a: "agent (agent_params_of job payload) (ext w) = (out, e')"
    by (cases "agent (agent_params_of job payload) (ext w)")
  show ?thesis
  proof (cases out)
    case (Inl err)
    with executeAgentTurn_throws[OF Some, of job payload w err e'] a show ?thesis by simp
  next
    case (Inr agentResult)
    show ?thesis
    proof (cases "ar_success agentResult")
      case True
      with executeAgentTurn_succeeded[OF Some, of job payload w agentResult e'] a Inr
      show ?thesis by simp
    next
      case False
      with executeAgentTurn_failed[OF Some, of job payload w agentResult e'] a Inr
      show ?thesis by simp
    qed
  qed
qed

lemma executeJob_returns:
  "\<exists>r w'. executeJob getChannel options job w = (Inr r, w')"
proof (cases "job_payload job")
  case (SystemEvent m)
  then show ?thesis by (simp add: executeJob_def executeSystemEvent_def returns_def)
next
  case (AgentTurn payload)
  with executeAgentTurn_returns[of getChannel options job payload w]
  show ?thesis by (simp add: executeJob_def)
next
  case (OtherKind k)
  then show ?thesis by (simp add: executeJob_def returns_def)
qed

lemmas executor_defs = executeJob_def executeAgentTurn_def executeSystemEvent_def
  deliverAgentOutput_def call_agentExecutor_def agent_params_of_def resolveChannel_def
  validChannels_def isChannelAvailable_def delivery_params_def

lemmas executor_fixture_defs = sunnyAgent_def unavailableAgent_def silentFailAgent_def
  throwingAgent_def weatherTurn_def jobWith_def executorWith_def

section \<open>Properties of the tools\<close>

lemmas tool_defs = cron_add_def cron_add_schedule_def cron_add_payload_def payloadType_of_def
  toolChannels_def error_result_def cron_update_def cron_update_patch_def

lemmas service_defs = spec_service_def spec_add_def spec_update_def apply_patch_def

lemmas tool_fixture_defs = stubParseDate_def stubValidate_def stubCalculator_def stubNewId_def
  stubService_def store0_def everyFiveMinutes_def jobWith_def

lemma cron_add_payload_rejected:
  assumes "cron_add_payload args = Inl err"
  shows "\<exists>r. cron_add parseDate validateCronExpr multiply service args sv = (Inr r, sv)
           \<and> tr_isError r = Some True"
proof (cases "cron_add_schedule parseDate validateCronExpr multiply args")
  case (Inl e)
  then have "tr_isError e = Some True"
    by (auto simp: cron_add_schedule_def error_result_def Let_def
        split: schedule_type.splits if_splits option.splits)
  with Inl show ?thesis by (simp add: cron_add_def returns_def)
next
  case (Inr schedule)
  from assms have "tr_isError err = Some True"
    by (auto simp: cron_add_payload_def error_result_def split: if_splits)
  with Inr assms show ?thesis by (simp add: cron_add_def returns_def)
qed

lemma replace_job_keeps:
  assumes "find (\<lambda>j. job_id j = ident) js = Some job"
  shows "job_id updated = ident \<Longrightarrow>
           map job_id (replace_job ident updated js) = map job_id js"
    and "job_schedule updated = job_schedule job \<Longrightarrow>
           map job_schedule (replace_job ident updated js) = map job_schedule js"
    and "job_payload updated = job_payload job \<Longrightarrow>
           map job_payload (replace_job ident updated js) = map job_payload js"
    and "job_id updated = ident \<Longrightarrow>
           find (\<lambda>j. job_id j = ident) (replace_job ident updated js) = Some updated"
  using assms by (induction js) (auto split: if_splits)

lemma find_job_id: "find (\<lambda>j. job_id j = ident) js = Some job \<Longrightarrow> job_id job = ident"
  by (induction js) (auto split: if_splits)

text \<open>What an update through the modelled service does to the store, for a patch that
  names neither schedule nor payload.\<close>

lemma spec_update_keeps:
  assumes "p_schedule patch = None" and "p_payload patch = None"
  shows "map job_id (jobs (snd (spec_update calculator now ident patch sv))) = map job_id (jobs sv)"
    and "map job_schedule (jobs (snd (spec_update calculator now ident patch sv)))
           = map job_schedule (jobs sv)"
    and "map job_payload (jobs (snd (spec_update calculator now ident patch sv)))
           = map job_payload (jobs sv)"
proof -
  show "map job_id (jobs (snd (spec_update calculator now ident patch sv))) = map job_id (jobs sv)"
  proof (cases "find (\<lambda>j. job_id j = ident) (jobs sv)")
    case None
    then show ?thesis by (simp add: spec_update_def)
  next
    case (Some job)
    from replace_job_keeps(1)[OF Some] find_job_id[OF Some] Some show ?thesis
      by (simp add: spec_update_def apply_patch_def Let_def)
  qed
  show "map job_schedule (jobs (snd (spec_update calculator now ident patch sv)))
           = map job_schedule (jobs sv)"
  proof (cases "find (\<lambda>j. job_id j = ident) (jobs sv)")
    case None
    then show ?thesis by (simp add: spec_update_def)
  next
    case (Some job)
    from replace_job_keeps(2)[OF Some] assms Some show ?thesis
      by (simp add: spec_update_def apply_patch_def Let_def)
  qed
  show "map job_payload (jobs (snd (spec_update calculator now ident patch sv)))
           = map job_payload (jobs sv)"
  proof (cases "find (\<lambda>j. job_id j = ident) (jobs sv)")
    case None
    then show ?thesis by (simp add: spec_update_def)
  next
    case (Some job)
    from replace_job_keeps(3)[OF Some] assms Some show ?thesis
      by (simp add: spec_update_def apply_patch_def Let_def)
  qed
qed

lemma spec_update_found:
  assumes "find (\<lambda>j. job_id j = ident) (jobs sv) = Some job"
  shows "\<exists>updated sv'. spec_update calculator now ident patch sv = (Inr (Some updated), sv')
           \<and> find (\<lambda>j. job_id j = ident) (jobs sv') = Some updated
           \<and> job_name updated = (case p_name patch of None \<Rightarrow> job_name job | Some n \<Rightarrow> n)
           \<and> job_enabled updated
               = (case p_enabled patch of None \<Rightarrow> job_enabled job | Some b \<Rightarrow> b)"
  using assms replace_job_keeps(4)[OF assms] find_job_id[OF assms]
  by (simp add: spec_update_def apply_patch_def Let_def)


lemma cron_update_effect:
  "cron_update service args sv = (Inr (error_result ErrNoUpdateFields), sv)
   \<or> snd (cron_update service args sv)
       = snd (svc_update service (ua_jobId args) (cron_update_patch args) sv)"
  by (auto simp: cron_update_def Let_def js_defs split: prod.splits sum.splits option.splits)

lemma cron_update_keeps:
  "map job_schedule (jobs (snd (cron_update (spec_service calculator now newId) args st)))
     = map job_schedule (jobs st)"
  "map job_payload (jobs (snd (cron_update (spec_service calculator now newId) args st)))
     = map job_payload (jobs st)"
  using cron_update_effect[of "spec_service calculator now newId" args st]
    spec_update_keeps(2,3)[of "cron_update_patch args" calculator now "ua_jobId args" st]
  by (auto simp: spec_service_def cron_update_patch_def)

lemma cron_update_accepted:
  assumes "find (\<lambda>j. job_id j = ident) (jobs st) = Some job"
    and "ua_jobId args = ident" and "ua_name args \<noteq> None \<or> ua_enabled args \<noteq> None"
  shows "\<exists>r st' updated. cron_update (spec_service calculator now newId) args st = (Inr r, st')
           \<and> tr_isError r = None
           \<and> find (\<lambda>j. job_id j = ident) (jobs st') = Some updated
           \<and> job_name updated = (case ua_name args of None \<Rightarrow> job_name job | Some n \<Rightarrow> n)
           \<and> job_enabled updated
               = (case ua_enabled args of None \<Rightarrow> job_enabled job | Some b \<Rightarrow> b)"
proof -
  from spec_update_found[OF assms(1), of calculator now "cron_update_patch args"]
  obtain updated st' where u:
    "spec_update calculator now ident (cron_update_patch args) st = (Inr (Some updated), st')"
    "find (\<lambda>j. job_id j = ident) (jobs st') = Some updated"
    "job_name updated = (case ua_name args of None \<Rightarrow> job_name job | Some n \<Rightarrow> n)"
    "job_enabled updated = (case ua_enabled args of None \<Rightarrow> job_enabled job | Some b \<Rightarrow> b)"
    by (auto simp: cron_update_patch_def)
  have "cron_update (spec_service calculator now newId) args st
          = (Inr \<lparr>tr_content = [JobUpdated updated], tr_isError = None\<rparr>, st')"
    using u(1) assms(2,3)
    by (auto simp: cron_update_def spec_service_def Let_def js_defs cron_update_patch_def)
  with u show ?thesis by simp
qed

section \<open>Claims about the delivery service\<close>




text \<open>
  Claim C4, as amended. For \<open>deliverMessage\<close>: if the target channel id is not
  registered, the call throws an \<open>Error\<close> with the message \<open>Channel not found: id\<close>
  when \<open>bestEffort\<close> is false or absent, and returns a failed result carrying that
  message when \<open>bestEffort\<close> is true. If the channel's \<open>sendMessage\<close> reports
  \<open>success = false\<close>, the call throws an \<open>Error\<close> whose message is the send error, or
  \<open>Unknown error\<close> when the send result carries no error text, when \<open>bestEffort\<close> is
  false or absent, and returns a failed result carrying the send result's error field when
  \<open>bestEffort\<close> is true.
\<close>

theorem deliverMessage_failure_modes:
  "(getChannel (ext w) (dt_channel target) = None \<longrightarrow>
      fst (deliverMessage getChannel target payload options w) =
        (if bestEffort_or_false options
         then Inr \<lparr>dr_success = False, dr_channel = dt_channel target, dr_messageId = None,
                   dr_error = Some (''Channel not found: '' @ dt_channel target),
                   dr_errorDetails = None\<rparr>
         else Inl (JsError (''Channel not found: '' @ dt_channel target))))
   \<and> (getChannel (ext w) (dt_channel target) = Some channel \<longrightarrow>
      channel \<lparr>chatId = dt_to target, content = dp_text payload,
               replyToId = dp_replyToId payload, mediaUrls = dp_mediaUrls payload\<rparr> (ext w)
        = (Inr result, e') \<longrightarrow>
      \<not> sr_success result \<longrightarrow>
      fst (deliverMessage getChannel target payload options w) =
        (if bestEffort_or_false options
         then Inr \<lparr>dr_success = False, dr_channel = dt_channel target, dr_messageId = None,
                   dr_error = sr_error result, dr_errorDetails = None\<rparr>
         else Inl (JsError (case sr_error result of
                              None \<Rightarrow> ''Unknown error'' | Some e \<Rightarrow> e))))"
proof (intro conjI impI)
  assume "getChannel (ext w) (dt_channel target) = None"
  then show "fst (deliverMessage getChannel target payload options w) =
        (if bestEffort_or_false options
         then Inr \<lparr>dr_success = False, dr_channel = dt_channel target, dr_messageId = None,
                   dr_error = Some (''Channel not found: '' @ dt_channel target),
                   dr_errorDetails = None\<rparr>
         else Inl (JsError (''Channel not found: '' @ dt_channel target)))"
    by (simp add: deliverMessage_notFound)
next
  assume found: "getChannel (ext w) (dt_channel target) = Some channel"
    and send: "channel \<lparr>chatId = dt_to target, content = dp_text payload,
               replyToId = dp_replyToId payload, mediaUrls = dp_mediaUrls payload\<rparr> (ext w)
        = (Inr result, e')"
    and failed: "\<not> sr_success result"
  show "fst (deliverMessage getChannel target payload options w) =
        (if bestEffort_or_false options
         then Inr \<lparr>dr_success = False, dr_channel = dt_channel target, dr_messageId = None,
                   dr_error = sr_error result, dr_errorDetails = None\<rparr>
         else Inl (JsError (case sr_error result of
                              None \<Rightarrow> ''Unknown error'' | Some e \<Rightarrow> e)))"
    using deliverMessage_send_failed[where getChannel=getChannel and w=w and target=target
        and channel=channel and payload=payload and options=options, OF found send failed]
    by simp
qed

theorem deliverMessage_failure_modes_witness:
  "mockGetChannel (ext world0) (dt_channel (toUser ''unknown'')) = None
   \<and> fst (deliverMessage mockGetChannel (toUser ''unknown'') (textPayload ''Hello'') None world0)
       = Inl (JsError ''Channel not found: unknown'')
   \<and> fst (deliverMessage mockGetChannel (toUser ''unknown'') (textPayload ''Hello'')
            (optionsWith (Some True) None) world0)
       = Inr \<lparr>dr_success = False, dr_channel = ''unknown'', dr_messageId = None,
              dr_error = Some ''Channel not found: unknown'', dr_errorDetails = None\<rparr>
   \<and> \<not> sr_success \<lparr>sr_success = False, sr_messageId = None, sr_error = Some ''Failed''\<rparr>
   \<and> fst (deliverMessage (\<lambda>n c. Some secondFailsChannel) (toUser ''dingtalk'')
            (textPayload ''Hello'') None \<lparr>ext = 1, trace = []\<rparr>)
       = Inl (JsError ''Failed'')
   \<and> fst (deliverMessage (\<lambda>n c. Some secondFailsChannel) (toUser ''dingtalk'')
            (textPayload ''Hello'') (optionsWith (Some True) None) \<lparr>ext = 1, trace = []\<rparr>)
       = Inr \<lparr>dr_success = False, dr_channel = ''dingtalk'', dr_messageId = None,
              dr_error = Some ''Failed'', dr_errorDetails = None\<rparr>"
proof -
  have miss: "mockGetChannel (ext world0) (dt_channel (toUser ''unknown'')) = None"
    by (simp add: fixture_defs)
  have found: "(\<lambda>n c. Some secondFailsChannel) (ext \<lparr>ext = 1::nat, trace = []\<rparr>)
                 (dt_channel (toUser ''dingtalk'')) = Some secondFailsChannel" by simp
  have send: "secondFailsChannel
                \<lparr>chatId = dt_to (toUser ''dingtalk''), content = dp_text (textPayload ''Hello''),
                 replyToId = dp_replyToId (textPayload ''Hello''),
                 mediaUrls = dp_mediaUrls (textPayload ''Hello'')\<rparr> (ext \<lparr>ext = 1::nat, trace = []\<rparr>)
              = (Inr \<lparr>sr_success = False, sr_messageId = None, sr_error = Some ''Failed''\<rparr>, 2)"
    by (simp add: fixture_defs)
  have failed: "\<not> sr_success \<lparr>sr_success = False, sr_messageId = None, sr_error = Some ''Failed''\<rparr>"
    by simp
  note m = deliverMessage_failure_modes[where getChannel = mockGetChannel and w = world0
      and target = "toUser ''unknown''" and payload = "textPayload ''Hello''",
      THEN conjunct1, rule_format, OF miss]
  note s = deliverMessage_failure_modes[where getChannel = "\<lambda>n c. Some secondFailsChannel"
      and w = "\<lparr>ext = 1, trace = []\<rparr>" and channel = secondFailsChannel
      and target = "toUser ''dingtalk''" and payload = "textPayload ''Hello''",
      THEN conjunct2, rule_format, OF found send failed]
  from m[of None] m[of "optionsWith (Some True) None"] s[of None]
    s[of "optionsWith (Some True) None"] miss failed
  show ?thesis
    by (simp add: bestEffort_or_false_def optionsWith_def toUser_def)
qed

text \<open>
  The claim as stated ("the call fails with that send error") fails where the send result
  carries no error text: the stub channel reports \<open>success = false\<close> without an error,
  and the call throws \<open>Unknown error\<close>.
\<close>

theorem deliverMessage_send_error_counterexample:
  "silentFailChannel
      \<lparr>chatId = ''user123'', content = ''Hello'', replyToId = None, mediaUrls = None\<rparr> 0
     = (Inr \<lparr>sr_success = False, sr_messageId = None, sr_error = None\<rparr>, 1)
   \<and> fst (deliverMessage (\<lambda>n c. Some silentFailChannel) (toUser ''dingtalk'')
           (textPayload ''Hello'') None world0) = Inl (JsError ''Unknown error'')
   \<and> Some (error_text (JsError ''Unknown error''))
       \<noteq> sr_error \<lparr>sr_success = False, sr_messageId = None, sr_error = None\<rparr>"
  by (simp add: fixture_defs delivery_defs)

text \<open>
  Claim C2, as amended. \<open>deliverMessages\<close> checks the abort signal at the top of every
  pass of its loop. If the loop arrives at pass \<open>k\<close>, that is, each of the \<open>k - 1\<close>
  earlier passes attempted its payload of \<open>pre\<close>, recorded its result in \<open>rs\<close> and
  went on to the next payload (which, with \<open>bestEffort\<close> false or absent, it does only
  after a successful attempt), and the signal has fired in the world reached, then the
  batch returns \<open>rs\<close> followed by exactly one synthetic failed result with the error
  \<open>Aborted\<close>: the list has length \<open>k\<close>, its index \<open>k - 1\<close> is that result, the
  world is the one of the check, and the attempts recorded are exactly \<open>pre\<close>, so
  that no further payload is attempted.
\<close>

theorem deliverMessages_abort:
  assumes "deliverMessages_prefix getChannel target options pre [] w = Some (rs, w1)"
    and "signal_aborted options (ext w1)"
  shows "deliverMessages getChannel target (pre @ p # post) options w
           = (Inr (rs @ [abortedResult target]), w1)
       \<and> length (rs @ [abortedResult target]) = length pre + 1
       \<and> (rs @ [abortedResult target]) ! length pre = abortedResult target
       \<and> dr_error (abortedResult target) = Some ''Aborted''
       \<and> \<not> dr_success (abortedResult target)
       \<and> map fst (attempts (new_calls w w1)) = pre
       \<and> (options_bestEffort options \<or> list_all dr_success rs)"
proof -
  have ok: "options_bestEffort options \<or> list_all dr_success rs"
    using prefix_successes[OF assms(1)] by auto
  from prefix_shape[OF assms(1)] obtain evs where
    len: "length rs = length pre" and tr: "trace w1 = trace w @ evs"
    and at: "attempts evs = map (\<lambda>p. (p, True)) pre"
    by auto
  have "deliverMessages getChannel target (pre @ p # post) options w
          = deliverMessages_loop getChannel target options (p # post) rs w1"
    by (simp add: deliverMessages_def prefix_then_loop[OF assms(1)])
  also have "\<dots> = (Inr (rs @ [abortedResult target]), w1)"
    by (simp add: iteration_aborted[OF assms(2)])
  finally have run: "deliverMessages getChannel target (pre @ p # post) options w
          = (Inr (rs @ [abortedResult target]), w1)" .
  have "map fst (attempts (new_calls w w1)) = pre"
    by (simp add: new_calls_append[OF tr] at comp_def)
  with run len ok show ?thesis by (simp add: abortedResult_def nth_append)
qed

theorem deliverMessages_abort_witness:
  "deliverMessages_prefix mockGetChannel (toUser ''dingtalk'')
      (optionsWith None (Some (\<lambda>n. 1 \<le> n))) [textPayload ''p1''] [] world0
     = Some ([\<lparr>dr_success = True, dr_channel = ''dingtalk'', dr_messageId = Some ''msg-123'',
               dr_error = None, dr_errorDetails = None\<rparr>],
             \<lparr>ext = 1,
              trace = [DeliverMessageCalled (toUser ''dingtalk'') (textPayload ''p1'') True,
                       SendMessageCalled ''dingtalk''
                         \<lparr>chatId = ''user123'', content = ''p1'', replyToId = None,
                          mediaUrls = None\<rparr>]\<rparr>)
   \<and> signal_aborted (optionsWith None (Some (\<lambda>n. 1 \<le> n))) 1
   \<and> fst (deliverMessages mockGetChannel (toUser ''dingtalk'')
             ([textPayload ''p1''] @ textPayload ''p2'' # [textPayload ''p3''])
             (optionsWith None (Some (\<lambda>n. 1 \<le> n))) world0)
       = Inr [\<lparr>dr_success = True, dr_channel = ''dingtalk'', dr_messageId = Some ''msg-123'',
               dr_error = None, dr_errorDetails = None\<rparr>,
              \<lparr>dr_success = False, dr_channel = ''dingtalk'', dr_messageId = None,
               dr_error = Some ''Aborted'', dr_errorDetails = None\<rparr>]"
proof -
  let ?w1 = "\<lparr>ext = 1::nat,
              trace = [DeliverMessageCalled (toUser ''dingtalk'') (textPayload ''p1'') True,
                       SendMessageCalled ''dingtalk''
                         \<lparr>chatId = ''user123'', content = ''p1'', replyToId = None,
                          mediaUrls = None\<rparr>]\<rparr>"
  have pre: "deliverMessages_prefix mockGetChannel (toUser ''dingtalk'')
      (optionsWith None (Some (\<lambda>n. 1 \<le> n))) [textPayload ''p1''] [] world0
     = Some ([\<lparr>dr_success = True, dr_channel = ''dingtalk'', dr_messageId = Some ''msg-123'',
               dr_error = None, dr_errorDetails = None\<rparr>], ?w1)"
    by (simp add: fixture_defs delivery_defs)
  have ab: "signal_aborted (optionsWith None (Some (\<lambda>n. 1 \<le> n))) (ext ?w1)"
    by (simp add: signal_aborted_def optionsWith_def)
  from deliverMessages_abort[OF pre ab, of "textPayload ''p2''" "[textPayload ''p3'']"] pre ab
  show ?thesis by (simp add: abortedResult_def toUser_def)
qed

text \<open>
  The claim as stated, for every payload list and options, fails where an earlier pass
  leaves the loop: with \<open>bestEffort\<close> absent, the first send fails and the signal fires
  during that send. One payload has been attempted and the signal has fired before the
  second pass, but the batch stops at the failed result: it returns that one result and
  no \<open>Aborted\<close> one.
\<close>

theorem deliverMessages_abort_counterexample:
  "\<not> signal_aborted (optionsWith None (Some (\<lambda>n. 1 \<le> n))) (ext world0)
   \<and> deliverMessages (\<lambda>n c. Some silentFailChannel) (toUser ''dingtalk'')
        [textPayload ''p1'', textPayload ''p2'']
        (optionsWith None (Some (\<lambda>n. 1 \<le> n))) world0
       = (Inr [\<lparr>dr_success = False, dr_channel = ''dingtalk'', dr_messageId = None,
                 dr_error = None, dr_errorDetails = None\<rparr>],
          \<lparr>ext = 1,
           trace = [DeliverMessageCalled (toUser ''dingtalk'') (textPayload ''p1'') True,
                    SendMessageCalled ''dingtalk''
                      \<lparr>chatId = ''user123'', content = ''p1'', replyToId = None,
                       mediaUrls = None\<rparr>]\<rparr>)
   \<and> signal_aborted (optionsWith None (Some (\<lambda>n. 1 \<le> n))) 1
   \<and> length [\<lparr>dr_success = False, dr_channel = ''dingtalk'', dr_messageId = None,
                 dr_error = None, dr_errorDetails = None\<rparr>] \<noteq> 2
   \<and> deliverMessages_prefix (\<lambda>n c. Some silentFailChannel) (toUser ''dingtalk'')
        (optionsWith None (Some (\<lambda>n. 1 \<le> n))) [textPayload ''p1''] [] world0 = None"
  by (simp add: fixture_defs delivery_defs)




section \<open>Claims about the executor\<close>

text \<open>
  Claim C1, as amended. For every \<open>agentTurn\<close> job, when the agent callback returns
  \<open>success = false\<close>, \<open>executeJob\<close> returns a result with status \<open>error\<close>, with
  the error of the callback when it gives one and \<open>Agent execution failed\<close> otherwise,
  and with the callback's output as \<open>outputText\<close>. The only call recorded in the run is
  the one of the callback: \<open>deliverOutboundPayloads\<close> is not invoked and no delivery is
  attempted.
\<close>

theorem executeJob_agent_failure:
  assumes "job_payload job = AgentTurn payload"
    and "eo_agentExecutor options = Some agent"
    and "agent (agent_params_of job payload) (ext w) = (Inr agentResult, e')"
    and "\<not> ar_success agentResult"
  shows "executeJob getChannel options job w =
           (Inr \<lparr>er_status = StatusError,
                  er_error = Some (case ar_error agentResult of
                                     None \<Rightarrow> ''Agent execution failed'' | Some e \<Rightarrow> e),
                  er_summary = None, er_outputText = Some (ar_output agentResult)\<rparr>,
            \<lparr>ext = e', trace = trace w @ [AgentExecutorCalled (agent_params_of job payload)]\<rparr>)
       \<and> deliveries (new_calls w (snd (executeJob getChannel options job w))) = []
       \<and> attempts (new_calls w (snd (executeJob getChannel options job w))) = []"
  using assms(1) executeAgentTurn_failed[OF assms(2,3,4), of getChannel]
  by (simp add: executeJob_def new_calls_def)

theorem executeJob_agent_failure_witness:
  "job_payload (jobWith (AgentTurn (weatherTurn (Some ''dingtalk''))))
     = AgentTurn (weatherTurn (Some ''dingtalk''))
   \<and> \<not> ar_success \<lparr>ar_success = False, ar_output = [], ar_error = Some ''Model unavailable''\<rparr>
   \<and> executeJob mockGetChannel (executorWith unavailableAgent None)
        (jobWith (AgentTurn (weatherTurn (Some ''dingtalk'')))) world0
       = (Inr \<lparr>er_status = StatusError, er_error = Some ''Model unavailable'',
                er_summary = None, er_outputText = Some []\<rparr>,
          \<lparr>ext = 0,
           trace = [AgentExecutorCalled
                      \<lparr>ap_message = ''weather'', ap_sessionKey = Some ''cron:j1'',
                       ap_model = None, ap_timeoutSeconds = None\<rparr>]\<rparr>)"
proof -
  let ?job = "jobWith (AgentTurn (weatherTurn (Some ''dingtalk'')))"
  have p: "job_payload ?job = AgentTurn (weatherTurn (Some ''dingtalk''))"
    by (simp add: jobWith_def)
  have a: "eo_agentExecutor (executorWith unavailableAgent None) = Some unavailableAgent"
    by (simp add: executorWith_def)
  have r: "unavailableAgent (agent_params_of ?job (weatherTurn (Some ''dingtalk''))) (ext world0)
           = (Inr \<lparr>ar_success = False, ar_output = [], ar_error = Some ''Model unavailable''\<rparr>, 0)"
    by (simp add: unavailableAgent_def world0_def)
  have f: "\<not> ar_success \<lparr>ar_success = False, ar_output = [], ar_error = Some ''Model unavailable''\<rparr>"
    by simp
  from executeJob_agent_failure[OF p a r f, of mockGetChannel] p f show ?thesis
    by (simp add: agent_params_of_def jobWith_def weatherTurn_def world0_def)
qed

text \<open>
  The claim as stated ("error equal to the callback's error") fails for a callback that
  fails without an error text: the result carries \<open>Agent execution failed\<close>.
\<close>

theorem executeJob_agent_failure_counterexample:
  "silentFailAgent (agent_params_of (jobWith (AgentTurn (weatherTurn (Some ''dingtalk''))))
                      (weatherTurn (Some ''dingtalk''))) 0
     = (Inr \<lparr>ar_success = False, ar_output = ''partial'', ar_error = None\<rparr>, 0)
   \<and> fst (executeJob mockGetChannel (executorWith silentFailAgent None)
             (jobWith (AgentTurn (weatherTurn (Some ''dingtalk'')))) world0)
       = Inr \<lparr>er_status = StatusError, er_error = Some ''Agent execution failed'',
               er_summary = None, er_outputText = Some ''partial''\<rparr>
   \<and> er_error \<lparr>er_status = StatusError, er_error = Some ''Agent execution failed'',
               er_summary = None, er_outputText = Some ''partial''\<rparr>
       \<noteq> ar_error \<lparr>ar_success = False, ar_output = ''partial'', ar_error = None\<rparr>"
  by (simp add: executor_defs executor_fixture_defs fixture_defs js_defs)

text \<open>
  Claim C5. For every \<open>agentTurn\<close> job whose agent callback returns
  \<open>success = true\<close>, \<open>executeJob\<close> returns status \<open>ok\<close>, the first 200 characters
  of the output as summary and the full output as \<open>outputText\<close>, for every registry
  and every behaviour of its channels and for every value of \<open>deliver\<close>, \<open>channel\<close>
  and \<open>to\<close>: whether the delivery is attempted, skipped, fails or throws.
\<close>

theorem executeJob_agent_success:
  assumes "job_payload job = AgentTurn payload"
    and "eo_agentExecutor options = Some agent"
    and "agent (agent_params_of job payload) (ext w) = (Inr agentResult, e')"
    and "ar_success agentResult"
  shows "fst (executeJob getChannel options job w) =
           Inr \<lparr>er_status = StatusOk, er_error = None,
                 er_summary = Some (take 200 (ar_output agentResult)),
                 er_outputText = Some (ar_output agentResult)\<rparr>"
  using assms(1) executeAgentTurn_succeeded[OF assms(2,3,4), of getChannel]
  by (simp add: executeJob_def)


theorem executeJob_agent_success_witness:
  "job_payload (jobWith (AgentTurn (weatherTurn (Some ''dingtalk''))))
     = AgentTurn (weatherTurn (Some ''dingtalk''))
   \<and> ar_success \<lparr>ar_success = True, ar_output = ''The weather is sunny today!'',
                  ar_error = None\<rparr>
   \<and> throwingChannel
        \<lparr>chatId = ''u1'', content = ''The weather is sunny today!'', replyToId = None,
         mediaUrls = None\<rparr> 0 = (Inl (JsError ''boom''), 1)
   \<and> fst (executeJob (\<lambda>n c. Some throwingChannel) (executorWith sunnyAgent None)
             (jobWith (AgentTurn (weatherTurn (Some ''dingtalk'')))) world0)
       = Inr \<lparr>er_status = StatusOk, er_error = None,
               er_summary = Some ''The weather is sunny today!'',
               er_outputText = Some ''The weather is sunny today!''\<rparr>
   \<and> fst (executeJob mockGetChannel (executorWith sunnyAgent None)
             (jobWith (AgentTurn (weatherTurn (Some ''dingtalk'')))) world0)
       = Inr \<lparr>er_status = StatusOk, er_error = None,
               er_summary = Some ''The weather is sunny today!'',
               er_outputText = Some ''The weather is sunny today!''\<rparr>"
proof -
  let ?job = "jobWith (AgentTurn (weatherTurn (Some ''dingtalk'')))"
  let ?r = "\<lparr>ar_success = True, ar_output = ''The weather is sunny today!'', ar_error = None\<rparr>"
  have p: "job_payload ?job = AgentTurn (weatherTurn (Some ''dingtalk''))"
    by (simp add: jobWith_def)
  have a: "eo_agentExecutor (executorWith sunnyAgent None) = Some sunnyAgent"
    by (simp add: executorWith_def)
  have r: "sunnyAgent (agent_params_of ?job (weatherTurn (Some ''dingtalk''))) (ext world0)
           = (Inr ?r, 0)"
    by (simp add: sunnyAgent_def world0_def)
  have ok: "ar_success ?r" by simp
  have boom: "throwingChannel
        \<lparr>chatId = ''u1'', content = ''The weather is sunny today!'', replyToId = None,
         mediaUrls = None\<rparr> 0 = (Inl (JsError ''boom''), 1)"
    by (simp add: throwingChannel_def)
  from executeJob_agent_success[OF p a r ok, of "\<lambda>n c. Some throwingChannel"]
    executeJob_agent_success[OF p a r ok, of mockGetChannel] p ok boom
  show ?thesis by simp
qed

text \<open>
  Claim C6, as amended. For every \<open>agentTurn\<close> job with a successful agent callback,
  delivery is attempted exactly when \<open>deliver\<close> is true and \<open>to\<close> is a non-empty
  string. The channel is resolved by the rule: an absent or empty channel and \<open>last\<close>
  map to the configured default channel, any other id in the recognised set passes
  through, anything else resolves to none. If the resolved id is none (or empty) or the
  channel is not registered when the callback has returned, the delivery is skipped and
  the run leaves the world as the callback left it; otherwise
  \<open>deliverOutboundPayloads\<close> is invoked once, with \<open>bestEffort = true\<close> and the single
  payload \<open>{text: output}\<close>.
\<close>

theorem executeJob_delivery_rule:
  assumes "job_payload job = AgentTurn payload"
    and "eo_agentExecutor options = Some agent"
    and "agent (agent_params_of job payload) (ext w) = (Inr agentResult, e')"
    and "ar_success agentResult"
  shows "snd (executeJob getChannel options job w) =
           (if truthy_bool (pa_deliver payload) \<and> truthy_str (pa_to payload) then
              (case resolveChannel (eo_defaultChannel options) (pa_channel payload) of
                 None \<Rightarrow> after_agent w (agent_params_of job payload) e'
               | Some c \<Rightarrow>
                   if c = [] \<or> getChannel e' c = None
                   then after_agent w (agent_params_of job payload) e'
                   else snd (deliverOutboundPayloads getChannel
                               (delivery_params c (the (pa_to payload)) (ar_output agentResult))
                               (after_agent w (agent_params_of job payload) e')))
            else after_agent w (agent_params_of job payload) e')
       \<and> deliveries (new_calls w (snd (executeJob getChannel options job w))) =
           (if truthy_bool (pa_deliver payload) \<and> truthy_str (pa_to payload) then
              (case resolveChannel (eo_defaultChannel options) (pa_channel payload) of
                 None \<Rightarrow> []
               | Some c \<Rightarrow>
                   if c = [] \<or> getChannel e' c = None then []
                   else [DeliverOutboundPayloadsCalled c (the (pa_to payload))
                           [\<lparr>dp_text = ar_output agentResult, dp_mediaUrls = None,
                             dp_replyToId = None\<rparr>] (Some True)])
            else [])
       \<and> resolveChannel d ch =
           (if ch = None \<or> ch = Some [] \<or> ch = Some ''last'' then d
            else if the ch \<in> {''dingtalk'', ''feishu'', ''qq'', ''wecom'', ''webchat''} then ch
            else None)"
proof (intro conjI)
  let ?w1 = "after_agent w (agent_params_of job payload) e'"
  let ?W = "if truthy_bool (pa_deliver payload) \<and> truthy_str (pa_to payload) then
              (case resolveChannel (eo_defaultChannel options) (pa_channel payload) of
                 None \<Rightarrow> ?w1
               | Some c \<Rightarrow>
                   if c = [] \<or> getChannel e' c = None then ?w1
                   else snd (deliverOutboundPayloads getChannel
                               (delivery_params c (the (pa_to payload)) (ar_output agentResult))
                               ?w1))
            else ?w1"
  show world: "snd (executeJob getChannel options job w) = ?W"
    using assms(1) executeAgentTurn_succeeded[OF assms(2,3,4), of getChannel]
    by (simp add: executeJob_def deliverAgentOutput_eq after_agent_def split: option.splits)
  have t1: "trace ?w1 = trace w @ [AgentExecutorCalled (agent_params_of job payload)]"
    by (simp add: after_agent_def)
  have skip: "deliveries (new_calls w ?w1) = []"
    by (simp add: new_calls_append[OF t1])
  have go: "deliveries (new_calls w (snd (deliverOutboundPayloads getChannel
               (delivery_params c (the (pa_to payload)) (ar_output agentResult)) ?w1)))
            = [DeliverOutboundPayloadsCalled c (the (pa_to payload))
                 [\<lparr>dp_text = ar_output agentResult, dp_mediaUrls = None, dp_replyToId = None\<rparr>]
                 (Some True)]" for c
  proof -
    from deliverOutboundPayloads_calls[of getChannel
        "delivery_params c (the (pa_to payload)) (ar_output agentResult)" ?w1]
    obtain rs w' evs where
      run: "deliverOutboundPayloads getChannel
              (delivery_params c (the (pa_to payload)) (ar_output agentResult)) ?w1 = (Inr rs, w')"
      and tr: "trace w' = trace ?w1 @ DeliverOutboundPayloadsCalled c (the (pa_to payload))
                 [\<lparr>dp_text = ar_output agentResult, dp_mediaUrls = None, dp_replyToId = None\<rparr>]
                 (Some True) # evs"
      and none: "deliveries evs = []"
      by (auto simp: delivery_params_def)
    have "trace w' = trace w @ (AgentExecutorCalled (agent_params_of job payload)
            # DeliverOutboundPayloadsCalled c (the (pa_to payload))
                 [\<lparr>dp_text = ar_output agentResult, dp_mediaUrls = None, dp_replyToId = None\<rparr>]
                 (Some True) # evs)"
      using tr t1 by simp
    from new_calls_append[OF this] run none show ?thesis by simp
  qed
  show "deliveries (new_calls w (snd (executeJob getChannel options job w))) =
           (if truthy_bool (pa_deliver payload) \<and> truthy_str (pa_to payload) then
              (case resolveChannel (eo_defaultChannel options) (pa_channel payload) of
                 None \<Rightarrow> []
               | Some c \<Rightarrow>
                   if c = [] \<or> getChannel e' c = None then []
                   else [DeliverOutboundPayloadsCalled c (the (pa_to payload))
                           [\<lparr>dp_text = ar_output agentResult, dp_mediaUrls = None,
                             dp_replyToId = None\<rparr>] (Some True)])
            else [])"
    unfolding world using skip go by (simp split: option.splits)
  show "resolveChannel d ch =
           (if ch = None \<or> ch = Some [] \<or> ch = Some ''last'' then d
            else if the ch \<in> {''dingtalk'', ''feishu'', ''qq'', ''wecom'', ''webchat''} then ch
            else None)"
    by (cases ch) (simp_all add: resolveChannel_def validChannels_def)
qed

theorem executeJob_delivery_rule_witness:
  "job_payload (jobWith (AgentTurn (weatherTurn (Some ''dingtalk''))))
     = AgentTurn (weatherTurn (Some ''dingtalk''))
   \<and> ar_success \<lparr>ar_success = True, ar_output = ''The weather is sunny today!'',
                  ar_error = None\<rparr>
   \<and> deliveries (new_calls world0
         (snd (executeJob mockGetChannel (executorWith sunnyAgent None)
                 (jobWith (AgentTurn (weatherTurn (Some ''dingtalk'')))) world0)))
       = [DeliverOutboundPayloadsCalled ''dingtalk'' ''u1''
            [textPayload ''The weather is sunny today!''] (Some True)]
   \<and> trace (snd (executeJob mockGetChannel (executorWith sunnyAgent None)
                   (jobWith (AgentTurn (weatherTurn (Some ''dingtalk'')))) world0))
       = [AgentExecutorCalled
            \<lparr>ap_message = ''weather'', ap_sessionKey = Some ''cron:j1'', ap_model = None,
             ap_timeoutSeconds = None\<rparr>,
          DeliverOutboundPayloadsCalled ''dingtalk'' ''u1''
            [textPayload ''The weather is sunny today!''] (Some True),
          DeliverMessageCalled
            \<lparr>dt_channel = ''dingtalk'', dt_to = ''u1'', dt_accountId = None\<rparr>
            (textPayload ''The weather is sunny today!'') True,
          SendMessageCalled ''dingtalk''
            \<lparr>chatId = ''u1'', content = ''The weather is sunny today!'', replyToId = None,
             mediaUrls = None\<rparr>]
   \<and> deliveries (new_calls world0
         (snd (executeJob mockGetChannel (executorWith sunnyAgent (Some ''feishu''))
                 (jobWith (AgentTurn (weatherTurn (Some ''last'')))) world0)))
       = [DeliverOutboundPayloadsCalled ''feishu'' ''u1''
            [textPayload ''The weather is sunny today!''] (Some True)]
   \<and> deliveries (new_calls world0
         (snd (executeJob mockGetChannel (executorWith sunnyAgent None)
                 (jobWith (AgentTurn (weatherTurn (Some ''qq'')))) world0)))
       = []"
proof -
  let ?r = "\<lparr>ar_success = True, ar_output = ''The weather is sunny today!'', ar_error = None\<rparr>"
  have p: "job_payload (jobWith (AgentTurn (weatherTurn c))) = AgentTurn (weatherTurn c)" for c
    by (simp add: jobWith_def)
  have a: "eo_agentExecutor (executorWith sunnyAgent d) = Some sunnyAgent" for d
    by (simp add: executorWith_def)
  have r: "sunnyAgent (agent_params_of (jobWith (AgentTurn (weatherTurn c))) (weatherTurn c))
             (ext world0) = (Inr ?r, 0)" for c
    by (simp add: sunnyAgent_def world0_def)
  have ok: "ar_success ?r" by simp
  have t: "deliveries (new_calls world0
         (snd (executeJob mockGetChannel (executorWith sunnyAgent d)
                 (jobWith (AgentTurn (weatherTurn c))) world0))) =
           (if truthy_bool (pa_deliver (weatherTurn c)) \<and> truthy_str (pa_to (weatherTurn c)) then
              (case resolveChannel (eo_defaultChannel (executorWith sunnyAgent d))
                      (pa_channel (weatherTurn c)) of
                 None \<Rightarrow> []
               | Some c' \<Rightarrow>
                   if c' = [] \<or> mockGetChannel 0 c' = None then []
                   else [DeliverOutboundPayloadsCalled c' (the (pa_to (weatherTurn c)))
                           [\<lparr>dp_text = ar_output ?r, dp_mediaUrls = None,
                             dp_replyToId = None\<rparr>] (Some True)])
            else [])" for c d
    using executeJob_delivery_rule[OF p[of c] a[of d] r[of c] ok,
        where getChannel = mockGetChannel] by blast
  have d1: "deliveries (new_calls world0
         (snd (executeJob mockGetChannel (executorWith sunnyAgent None)
                 (jobWith (AgentTurn (weatherTurn (Some ''dingtalk'')))) world0)))
       = [DeliverOutboundPayloadsCalled ''dingtalk'' ''u1''
            [textPayload ''The weather is sunny today!''] (Some True)]"
    using t[of None "Some ''dingtalk''"]
    by (simp add: weatherTurn_def executorWith_def resolveChannel_def validChannels_def
        mockGetChannel_def textPayload_def)
  have d2: "deliveries (new_calls world0
         (snd (executeJob mockGetChannel (executorWith sunnyAgent (Some ''feishu''))
                 (jobWith (AgentTurn (weatherTurn (Some ''last'')))) world0)))
       = [DeliverOutboundPayloadsCalled ''feishu'' ''u1''
            [textPayload ''The weather is sunny today!''] (Some True)]"
    using t[of "Some ''feishu''" "Some ''last''"]
    by (simp add: weatherTurn_def executorWith_def resolveChannel_def validChannels_def
        mockGetChannel_def textPayload_def)
  have d3: "deliveries (new_calls world0
         (snd (executeJob mockGetChannel (executorWith sunnyAgent None)
                 (jobWith (AgentTurn (weatherTurn (Some ''qq'')))) world0)))
       = []"
    using t[of None "Some ''qq''"]
    by (simp add: weatherTurn_def executorWith_def resolveChannel_def validChannels_def
        mockGetChannel_def textPayload_def)
  have tr: "trace (snd (executeJob mockGetChannel (executorWith sunnyAgent None)
                   (jobWith (AgentTurn (weatherTurn (Some ''dingtalk'')))) world0))
       = [AgentExecutorCalled
            \<lparr>ap_message = ''weather'', ap_sessionKey = Some ''cron:j1'', ap_model = None,
             ap_timeoutSeconds = None\<rparr>,
          DeliverOutboundPayloadsCalled ''dingtalk'' ''u1''
            [textPayload ''The weather is sunny today!''] (Some True),
          DeliverMessageCalled
            \<lparr>dt_channel = ''dingtalk'', dt_to = ''u1'', dt_accountId = None\<rparr>
            (textPayload ''The weather is sunny today!'') True,
          SendMessageCalled ''dingtalk''
            \<lparr>chatId = ''u1'', content = ''The weather is sunny today!'', replyToId = None,
             mediaUrls = None\<rparr>]"
    by (simp add: executor_defs executor_fixture_defs fixture_defs delivery_defs)
  from p[of "Some ''dingtalk''"] ok d1 d2 d3 tr show ?thesis by simp
qed

text \<open>
  The rule as claimed sends an absent channel to none, and the delivery would then be
  skipped; \<open>resolveChannel\<close> sends it to the configured default, and the output is
  delivered there.
\<close>

theorem executeJob_delivery_rule_counterexample:
  "resolveChannel (Some ''dingtalk'') None = Some ''dingtalk''
   \<and> claimed_resolveChannel (Some ''dingtalk'') None = None
   \<and> deliveries (trace (snd (executeJob mockGetChannel
                                (executorWith sunnyAgent (Some ''dingtalk''))
                                (jobWith (AgentTurn (weatherTurn None))) world0)))
       = [DeliverOutboundPayloadsCalled ''dingtalk'' ''u1''
            [textPayload ''The weather is sunny today!''] (Some True)]"
  by (simp add: claimed_resolveChannel_def executor_defs executor_fixture_defs fixture_defs
      delivery_defs)

text \<open>
  Claim C9, as amended. \<open>executeJob\<close> is total and never throws: for every job
  (including one whose payload kind is neither \<open>systemEvent\<close> nor \<open>agentTurn\<close>), every
  registry, every behaviour of the agent callback and of the channels, thrown exceptions
  included, it returns a result whose status is \<open>ok\<close>, \<open>error\<close> or \<open>skipped\<close>. An
  exception thrown by the agent callback is converted into the result with status
  \<open>error\<close> and the exception's message; an unknown payload kind gives an \<open>error\<close>
  result naming the kind; after a successful callback the status is \<open>ok\<close> whatever the
  delivery does, an exception thrown by a channel included.
\<close>

theorem executeJob_total:
  "(\<exists>r w'. executeJob getChannel options job w = (Inr r, w')
        \<and> er_status r \<in> {StatusOk, StatusError, StatusSkipped})
   \<and> (job_payload job = AgentTurn payload \<longrightarrow> eo_agentExecutor options = Some agent \<longrightarrow>
        agent (agent_params_of job payload) (ext w) = (Inl err, e') \<longrightarrow>
        fst (executeJob getChannel options job w)
          = Inr \<lparr>er_status = StatusError, er_error = Some (error_text err),
                  er_summary = None, er_outputText = None\<rparr>)
   \<and> (job_payload job = OtherKind kind \<longrightarrow>
        fst (executeJob getChannel options job w)
          = Inr \<lparr>er_status = StatusError,
                  er_error = Some (''Unknown payload kind: '' @ kind),
                  er_summary = None, er_outputText = None\<rparr>)
   \<and> (job_payload job = AgentTurn payload \<longrightarrow> eo_agentExecutor options = Some agent \<longrightarrow>
        agent (agent_params_of job payload) (ext w) = (Inr agentResult, e') \<longrightarrow>
        ar_success agentResult \<longrightarrow>
        (\<exists>r. fst (executeJob getChannel options job w) = Inr r \<and> er_status r = StatusOk))"
proof (intro conjI impI)
  obtain r w' where run: "executeJob getChannel options job w = (Inr r, w')"
    using executeJob_returns by blast
  have "er_status r \<in> {StatusOk, StatusError, StatusSkipped}"
    by (cases "er_status r") simp_all
  with run show "\<exists>r w'. executeJob getChannel options job w = (Inr r, w')
        \<and> er_status r \<in> {StatusOk, StatusError, StatusSkipped}" by blast
next
  assume "job_payload job = AgentTurn payload" and a: "eo_agentExecutor options = Some agent"
    and t: "agent (agent_params_of job payload) (ext w) = (Inl err, e')"
  then show "fst (executeJob getChannel options job w)
          = Inr \<lparr>er_status = StatusError, er_error = Some (error_text err),
                  er_summary = None, er_outputText = None\<rparr>"
    using executeAgentTurn_throws[OF a t, of getChannel] by (simp add: executeJob_def)
next
  assume "job_payload job = OtherKind kind"
  then show "fst (executeJob getChannel options job w)
          = Inr \<lparr>er_status = StatusError,
                  er_error = Some (''Unknown payload kind: '' @ kind),
                  er_summary = None, er_outputText = None\<rparr>"
    by (simp add: executeJob_def returns_def)
next
  assume "job_payload job = AgentTurn payload" and a: "eo_agentExecutor options = Some agent"
    and t: "agent (agent_params_of job payload) (ext w) = (Inr agentResult, e')"
    and ok: "ar_success agentResult"
  then show "\<exists>r. fst (executeJob getChannel options job w) = Inr r \<and> er_status r = StatusOk"
    using executeAgentTurn_succeeded[OF a t ok, of getChannel] by (simp add: executeJob_def)
qed

theorem executeJob_total_witness:
  "job_payload (jobWith (AgentTurn (weatherTurn (Some ''dingtalk''))))
     = AgentTurn (weatherTurn (Some ''dingtalk''))
   \<and> throwingAgent (agent_params_of (jobWith (AgentTurn (weatherTurn (Some ''dingtalk''))))
                      (weatherTurn (Some ''dingtalk''))) (ext world0)
       = (Inl (JsError ''timeout''), 0)
   \<and> fst (executeJob mockGetChannel (executorWith throwingAgent None)
             (jobWith (AgentTurn (weatherTurn (Some ''dingtalk'')))) world0)
       = Inr \<lparr>er_status = StatusError, er_error = Some ''timeout'',
               er_summary = None, er_outputText = None\<rparr>
   \<and> job_payload (jobWith (OtherKind ''webhook'')) = OtherKind ''webhook''
   \<and> fst (executeJob mockGetChannel (executorWith throwingAgent None)
             (jobWith (OtherKind ''webhook'')) world0)
       = Inr \<lparr>er_status = StatusError, er_error = Some ''Unknown payload kind: webhook'',
               er_summary = None, er_outputText = None\<rparr>
   \<and> ar_success \<lparr>ar_success = True, ar_output = ''The weather is sunny today!'',
                  ar_error = None\<rparr>
   \<and> (\<exists>r. fst (executeJob (\<lambda>n c. Some throwingChannel) (executorWith sunnyAgent None)
                 (jobWith (AgentTurn (weatherTurn (Some ''dingtalk'')))) world0) = Inr r
          \<and> er_status r = StatusOk)"
proof -
  let ?job = "jobWith (AgentTurn (weatherTurn (Some ''dingtalk'')))"
  let ?r = "\<lparr>ar_success = True, ar_output = ''The weather is sunny today!'', ar_error = None\<rparr>"
  have p: "job_payload ?job = AgentTurn (weatherTurn (Some ''dingtalk''))"
    by (simp add: jobWith_def)
  have a: "eo_agentExecutor (executorWith agent None) = Some agent" for agent :: "nat agent_executor"
    by (simp add: executorWith_def)
  have t: "throwingAgent (agent_params_of ?job (weatherTurn (Some ''dingtalk''))) (ext world0)
           = (Inl (JsError ''timeout''), 0)"
    by (simp add: throwingAgent_def world0_def)
  have k: "job_payload (jobWith (OtherKind ''webhook'')) = OtherKind ''webhook''"
    by (simp add: jobWith_def)
  have r: "sunnyAgent (agent_params_of ?job (weatherTurn (Some ''dingtalk''))) (ext world0)
           = (Inr ?r, 0)"
    by (simp add: sunnyAgent_def world0_def)
  have ok: "ar_success ?r" by simp
  note c2 = executeJob_total[where getChannel = mockGetChannel and job = ?job and w = world0
      and options = "executorWith throwingAgent None",
      THEN conjunct2, THEN conjunct1, rule_format, OF p a t]
  note c3 = executeJob_total[where getChannel = mockGetChannel
      and job = "jobWith (OtherKind ''webhook'')" and w = world0
      and options = "executorWith throwingAgent None",
      THEN conjunct2, THEN conjunct2, THEN conjunct1, rule_format, OF k]
  note c4 = executeJob_total[where getChannel = "\<lambda>n c. Some throwingChannel" and job = ?job
      and w = world0 and options = "executorWith sunnyAgent None",
      THEN conjunct2, THEN conjunct2, THEN conjunct2, rule_format, OF p a r ok]
  from c2 c3 c4 p t k ok show ?thesis by simp
qed

text \<open>
  An exception thrown inside the run by a channel is not converted into an error
  result: the delivery absorbs it and the run returns \<open>ok\<close>.
\<close>

theorem executeJob_total_counterexample:
  "throwingChannel
      \<lparr>chatId = ''u1'', content = ''The weather is sunny today!'', replyToId = None,
       mediaUrls = None\<rparr> 0 = (Inl (JsError ''boom''), 1)
   \<and> executeJob (\<lambda>n c. Some throwingChannel) (executorWith sunnyAgent None)
        (jobWith (AgentTurn (weatherTurn (Some ''dingtalk'')))) world0
       = (Inr \<lparr>er_status = StatusOk, er_error = None,
                er_summary = Some ''The weather is sunny today!'',
                er_outputText = Some ''The weather is sunny today!''\<rparr>,
          \<lparr>ext = 1,
           trace = [AgentExecutorCalled
                      \<lparr>ap_message = ''weather'', ap_sessionKey = Some ''cron:j1'',
                       ap_model = None, ap_timeoutSeconds = None\<rparr>,
                    DeliverOutboundPayloadsCalled ''dingtalk'' ''u1''
                      [textPayload ''The weather is sunny today!''] (Some True),
                    DeliverMessageCalled
                      \<lparr>dt_channel = ''dingtalk'', dt_to = ''u1'', dt_accountId = None\<rparr>
                      (textPayload ''The weather is sunny today!'') True,
                    SendMessageCalled ''dingtalk''
                      \<lparr>chatId = ''u1'', content = ''The weather is sunny today!'',
                       replyToId = None, mediaUrls = None\<rparr>]\<rparr>)
   \<and> fst (executeJob (\<lambda>n c. Some throwingChannel) (executorWith sunnyAgent None)
             (jobWith (AgentTurn (weatherTurn (Some ''dingtalk'')))) world0)
       \<noteq> Inr \<lparr>er_status = StatusError, er_error = Some (error_text (JsError ''boom'')),
               er_summary = None, er_outputText = None\<rparr>"
  by (simp add: executor_defs executor_fixture_defs fixture_defs delivery_defs)

section \<open>Claims about the tool facade\<close>

text \<open>
  Claim C7, as amended. The tool \<open>cron_add\<close> rejects every \<open>agentTurn\<close> request
  that has \<open>deliver = true\<close> but no channel or no recipient (an empty string counts as
  none), or names a non-empty channel outside \<open>dingtalk\<close>, \<open>feishu\<close>, \<open>qq\<close>,
  \<open>wecom\<close>, \<open>webchat\<close>, \<open>last\<close>, or gives a \<open>timeoutSeconds\<close> below 1 or above
  600: for every date parser, validator, service and service state, whatever the
  schedule arguments are, the result has \<open>isError = true\<close> and the state of the service
  is the one before the call, so that no job is persisted.
\<close>

theorem cron_add_rejects:
  assumes "aa_payloadType args = Some PayloadAgentTurn"
    and "(aa_deliver args = Some True
            \<and> (aa_channel args = None \<or> aa_channel args = Some []
                 \<or> aa_to args = None \<or> aa_to args = Some []))
         \<or> (\<exists>c. aa_channel args = Some c \<and> c \<noteq> []
                \<and> c \<notin> {''dingtalk'', ''feishu'', ''qq'', ''wecom'', ''webchat'', ''last''})
         \<or> (\<exists>t. aa_timeoutSeconds args = Some t \<and> (t < 1 \<or> 600 < t))"
  shows "\<exists>r. cron_add parseDate validateCronExpr multiply service args sv = (Inr r, sv)
           \<and> tr_isError r = Some True"
proof -
  have "\<exists>err. cron_add_payload args = Inl err"
    using assms
    by (auto simp: cron_add_payload_def payloadType_of_def toolChannels_def)
  then obtain err where "cron_add_payload args = Inl err" ..
  then show ?thesis by (rule cron_add_payload_rejected)
qed


theorem cron_add_rejects_witness:
  "aa_payloadType everyFiveMinutes = Some PayloadAgentTurn
   \<and> (\<exists>r. cron_add stubParseDate stubValidate times stubService
              (everyFiveMinutes\<lparr>aa_deliver := Some True, aa_channel := Some ''dingtalk''\<rparr>)
              store0 = (Inr r, store0)
          \<and> tr_isError r = Some True)
   \<and> ''invalid_channel'' \<notin> {''dingtalk'', ''feishu'', ''qq'', ''wecom'', ''webchat'', ''last''}
   \<and> (\<exists>r. cron_add stubParseDate stubValidate times stubService
              (everyFiveMinutes\<lparr>aa_deliver := Some True, aa_channel := Some ''invalid_channel'',
                                  aa_to := Some ''user123''\<rparr>)
              store0 = (Inr r, store0)
          \<and> tr_isError r = Some True)
   \<and> (600::real) < 1000
   \<and> (\<exists>r. cron_add stubParseDate stubValidate times stubService
              (everyFiveMinutes\<lparr>aa_timeoutSeconds := Some 1000\<rparr>)
              store0 = (Inr r, store0)
          \<and> tr_isError r = Some True)
   \<and> (case cron_add stubParseDate stubValidate times stubService
              (everyFiveMinutes\<lparr>aa_deliver := Some True, aa_channel := Some ''dingtalk'',
                                  aa_to := Some ''user123'', aa_timeoutSeconds := Some 120\<rparr>)
              store0 of
         (Inr r, sv') \<Rightarrow> tr_isError r = None \<and> length (jobs sv') = 2
       | (Inl err, sv') \<Rightarrow> False)"
proof -
  have k: "aa_payloadType (everyFiveMinutes\<lparr>aa_deliver := d, aa_channel := c, aa_to := t,
                                             aa_timeoutSeconds := s\<rparr>)
             = Some PayloadAgentTurn" for d c t s
    by (simp add: everyFiveMinutes_def)
  have w1: "\<exists>r. cron_add stubParseDate stubValidate times stubService
              (everyFiveMinutes\<lparr>aa_deliver := Some True, aa_channel := Some ''dingtalk''\<rparr>)
              store0 = (Inr r, store0)
          \<and> tr_isError r = Some True"
    by (rule cron_add_rejects) (simp_all add: everyFiveMinutes_def)
  have w2: "\<exists>r. cron_add stubParseDate stubValidate times stubService
              (everyFiveMinutes\<lparr>aa_deliver := Some True, aa_channel := Some ''invalid_channel'',
                                  aa_to := Some ''user123''\<rparr>)
              store0 = (Inr r, store0)
          \<and> tr_isError r = Some True"
    by (rule cron_add_rejects) (simp_all add: everyFiveMinutes_def)
  have w3: "\<exists>r. cron_add stubParseDate stubValidate times stubService
              (everyFiveMinutes\<lparr>aa_timeoutSeconds := Some 1000\<rparr>)
              store0 = (Inr r, store0)
          \<and> tr_isError r = Some True"
    by (rule cron_add_rejects) (simp_all add: everyFiveMinutes_def)
  have w4: "(case cron_add stubParseDate stubValidate times stubService
              (everyFiveMinutes\<lparr>aa_deliver := Some True, aa_channel := Some ''dingtalk'',
                                  aa_to := Some ''user123'', aa_timeoutSeconds := Some 120\<rparr>)
              store0 of
         (Inr r, sv') \<Rightarrow> tr_isError r = None \<and> length (jobs sv') = 2
       | (Inl err, sv') \<Rightarrow> False)"
    by (simp add: tool_defs service_defs tool_fixture_defs js_defs Let_def)
  from w1 w2 w3 w4 show ?thesis by (simp add: everyFiveMinutes_def)
qed

text \<open>
  The claim as stated fails for the empty channel: it is outside the closed set, but
  the check of the channel skips a falsy one, so that a request without \<open>deliver\<close> that
  gives the channel \<open>""\<close> is accepted and a job with that channel is persisted.
\<close>

theorem cron_add_rejects_counterexample:
  "aa_payloadType (everyFiveMinutes\<lparr>aa_channel := Some []\<rparr>) = Some PayloadAgentTurn
   \<and> [] \<notin> {''dingtalk'', ''feishu'', ''qq'', ''wecom'', ''webchat'', ''last''}
   \<and> (case cron_add stubParseDate stubValidate times stubService
              (everyFiveMinutes\<lparr>aa_channel := Some []\<rparr>) store0 of
         (Inr r, sv') \<Rightarrow>
           tr_isError r = None
           \<and> map job_payload (jobs sv')
               = [SystemEvent ''hello'',
                  AgentTurn \<lparr>pa_message = ''test'', pa_model = None, pa_timeoutSeconds = None,
                             pa_deliver = None, pa_channel = Some [], pa_to = None\<rparr>]
       | (Inl err, sv') \<Rightarrow> False)"
  by (simp add: tool_defs service_defs tool_fixture_defs js_defs Let_def)

text \<open>
  Claim C8, as amended. The tool \<open>cron_update\<close> permits mutating the name and the
  enabled flag of an existing job, and nothing else. The patch it hands to the service
  carries its \<open>name\<close> and \<open>enabled\<close> arguments and never a schedule or a payload, and
  the update is its only call of the service. With the service of the specification,
  no invocation changes the schedule or the payload of any stored job, whereas for a
  stored job there is an accepted invocation that sets its name to any given value and
  one that sets its enabled flag to any given value.
\<close>

theorem cron_update_fields:
  "(p_name (cron_update_patch args) = ua_name args
      \<and> p_enabled (cron_update_patch args) = ua_enabled args
      \<and> p_schedule (cron_update_patch args) = None
      \<and> p_payload (cron_update_patch args) = None)
   \<and> (cron_update service args sv = (Inr (error_result ErrNoUpdateFields), sv)
       \<or> snd (cron_update service args sv)
           = snd (svc_update service (ua_jobId args) (cron_update_patch args) sv))
   \<and> map job_schedule (jobs (snd (cron_update (spec_service calculator now newId) args st)))
       = map job_schedule (jobs st)
   \<and> map job_payload (jobs (snd (cron_update (spec_service calculator now newId) args st)))
       = map job_payload (jobs st)
   \<and> (find (\<lambda>j. job_id j = ident) (jobs st) = Some job \<longrightarrow>
        (\<exists>r st'. cron_update (spec_service calculator now newId)
                    \<lparr>ua_jobId = ident, ua_name = Some n, ua_enabled = None\<rparr> st = (Inr r, st')
            \<and> tr_isError r = None
            \<and> map_option job_name (find (\<lambda>j. job_id j = ident) (jobs st')) = Some n)
      \<and> (\<exists>r st'. cron_update (spec_service calculator now newId)
                    \<lparr>ua_jobId = ident, ua_name = None, ua_enabled = Some b\<rparr> st = (Inr r, st')
            \<and> tr_isError r = None
            \<and> map_option job_enabled (find (\<lambda>j. job_id j = ident) (jobs st')) = Some b))"
proof (intro conjI impI)
  show "p_name (cron_update_patch args) = ua_name args"
    "p_enabled (cron_update_patch args) = ua_enabled args"
    "p_schedule (cron_update_patch args) = None"
    "p_payload (cron_update_patch args) = None"
    by (simp_all add: cron_update_patch_def)
  show "cron_update service args sv = (Inr (error_result ErrNoUpdateFields), sv)
       \<or> snd (cron_update service args sv)
           = snd (svc_update service (ua_jobId args) (cron_update_patch args) sv)"
    by (rule cron_update_effect)
  show "map job_schedule (jobs (snd (cron_update (spec_service calculator now newId) args st)))
       = map job_schedule (jobs st)"
    by (rule cron_update_keeps)
  show "map job_payload (jobs (snd (cron_update (spec_service calculator now newId) args st)))
       = map job_payload (jobs st)"
    by (rule cron_update_keeps)
next
  assume f: "find (\<lambda>j. job_id j = ident) (jobs st) = Some job"
  from cron_update_accepted[OF f, of "\<lparr>ua_jobId = ident, ua_name = Some n, ua_enabled = None\<rparr>"
      calculator now newId]
  show "\<exists>r st'. cron_update (spec_service calculator now newId)
                    \<lparr>ua_jobId = ident, ua_name = Some n, ua_enabled = None\<rparr> st = (Inr r, st')
            \<and> tr_isError r = None
            \<and> map_option job_name (find (\<lambda>j. job_id j = ident) (jobs st')) = Some n"
    by auto
  from cron_update_accepted[OF f, of "\<lparr>ua_jobId = ident, ua_name = None, ua_enabled = Some b\<rparr>"
      calculator now newId]
  show "\<exists>r st'. cron_update (spec_service calculator now newId)
                    \<lparr>ua_jobId = ident, ua_name = None, ua_enabled = Some b\<rparr> st = (Inr r, st')
            \<and> tr_isError r = None
            \<and> map_option job_enabled (find (\<lambda>j. job_id j = ident) (jobs st')) = Some b"
    by auto
qed

theorem cron_update_fields_witness:
  "find (\<lambda>j. job_id j = ''j1'') (jobs store0) = Some (jobWith (SystemEvent ''hello''))
   \<and> job_name (jobWith (SystemEvent ''hello'')) \<noteq> ''Renamed''
   \<and> (\<exists>r st'. cron_update stubService
                 \<lparr>ua_jobId = ''j1'', ua_name = Some ''Renamed'', ua_enabled = None\<rparr> store0
               = (Inr r, st')
          \<and> tr_isError r = None
          \<and> map_option job_name (find (\<lambda>j. job_id j = ''j1'') (jobs st')) = Some ''Renamed'')
   \<and> job_enabled (jobWith (SystemEvent ''hello'')) \<noteq> False
   \<and> (\<exists>r st'. cron_update stubService
                 \<lparr>ua_jobId = ''j1'', ua_name = None, ua_enabled = Some False\<rparr> store0
               = (Inr r, st')
          \<and> tr_isError r = None
          \<and> map_option job_enabled (find (\<lambda>j. job_id j = ''j1'') (jobs st')) = Some False)"
proof -
  have f: "find (\<lambda>j. job_id j = ''j1'') (jobs store0) = Some (jobWith (SystemEvent ''hello''))"
    by (simp add: store0_def jobWith_def)
  note t = cron_update_fields[where st = store0 and ident = "''j1''"
      and calculator = stubCalculator and now = 1000000 and newId = stubNewId
      and job = "jobWith (SystemEvent ''hello'')",
      THEN conjunct2, THEN conjunct2, THEN conjunct2, THEN conjunct2, rule_format, OF f,
      folded stubService_def]
  from t[of "''Renamed''" False] f show ?thesis
    by (simp add: jobWith_def)
qed

text \<open>
  No invocation of \<open>cron_update\<close> names a schedule or a payload in its patch, and none
  changes the schedule or the payload of a stored job.
\<close>

theorem cron_update_fields_counterexample:
  "\<not> (\<exists>args. p_schedule (cron_update_patch args) \<noteq> None
             \<or> p_payload (cron_update_patch args) \<noteq> None)
   \<and> \<not> (\<exists>args. map job_schedule (jobs (snd (cron_update stubService args store0)))
                  \<noteq> map job_schedule (jobs store0))
   \<and> \<not> (\<exists>args. map job_payload (jobs (snd (cron_update stubService args store0)))
                  \<noteq> map job_payload (jobs store0))"
  by (simp add: cron_update_patch_def stubService_def cron_update_keeps)

end
